theory Spec2Isabelle
  imports Main
begin

section \<open>Go strings, runes and UTF-8\<close>

text \<open>
  A Go \<open>string\<close> is an immutable sequence of bytes; \<open>len(s)\<close> is the number of bytes.
  It is modelled by \<^typ>\<open>string\<close>, a list of 8-bit characters. A \<open>rune\<close> is a signed
  32-bit code point; no arithmetic of the program comes near the bounds, so runes are
  integers.
\<close>

type_synonym rune = int

definition byte :: "char \<Rightarrow> int" where
  "byte c = of_char c"

definition RuneError :: rune where
  "RuneError = 0xFFFD"

definition RuneSelf :: int where
  "RuneSelf = 0x80"

text \<open>\<open>utf8.ValidRune\<close>: a code point that is in range and not a surrogate half.\<close>

definition ValidRune :: "rune \<Rightarrow> bool" where
  "ValidRune r = ((0 \<le> r \<and> r < 0xD800) \<or> (0xDFFF < r \<and> r \<le> 0x10FFFF))"

text \<open>
  \<open>utf8.EncodeRune\<close> / \<open>Builder.WriteRune\<close>: the UTF-8 encoding of a rune. A rune out
  of range or a surrogate half is written as the encoding of \<open>RuneError\<close>.
\<close>

definition EncodeRune :: "rune \<Rightarrow> string" where
  "EncodeRune r =
     (if 0 \<le> r \<and> r \<le> 0x7F then [char_of r]
      else if 0 \<le> r \<and> r \<le> 0x7FF then
        [char_of (0xC0 + r div 64), char_of (0x80 + r mod 64)]
      else if r < 0 \<or> 0x10FFFF < r \<or> (0xD800 \<le> r \<and> r \<le> 0xDFFF) then
        [char_of (0xEF::int), char_of (0xBF::int), char_of (0xBD::int)]
      else if r \<le> 0xFFFF then
        [char_of (0xE0 + r div 4096), char_of (0x80 + (r div 64) mod 64),
         char_of (0x80 + r mod 64)]
      else
        [char_of (0xF0 + r div 262144), char_of (0x80 + (r div 4096) mod 64),
         char_of (0x80 + (r div 64) mod 64), char_of (0x80 + r mod 64)])"

text \<open>
  The range accepted for the second byte of a sequence, by its first byte
  (\<open>acceptRanges\<close> of package \<open>utf8\<close>): it excludes overlong forms, surrogates and
  code points above \<open>0x10FFFF\<close>.
\<close>

definition acceptRange :: "int \<Rightarrow> int \<times> int" where
  "acceptRange b0 =
     (if b0 = 0xE0 then (0xA0, 0xBF)
      else if b0 = 0xED then (0x80, 0x9F)
      else if b0 = 0xF0 then (0x90, 0xBF)
      else if b0 = 0xF4 then (0x80, 0x8F)
      else (0x80, 0xBF))"

definition cont :: "int \<Rightarrow> bool" where
  "cont b = (0x80 \<le> b \<and> b \<le> 0xBF)"

text \<open>
  \<open>utf8.DecodeRuneInString\<close>: the first rune of a string and its width in bytes;
  \<open>(RuneError, 0)\<close> on the empty string and \<open>(RuneError, 1)\<close> where the bytes are
  not a well-formed sequence.
\<close>

fun DecodeRuneInString :: "string \<Rightarrow> rune \<times> nat" where
  "DecodeRuneInString [] = (RuneError, 0)"
| "DecodeRuneInString (c0 # cs) =
     (let b0 = byte c0 in
      if b0 < RuneSelf then (b0, 1)
      else if b0 < 0xC2 \<or> 0xF4 < b0 then (RuneError, 1)
      else (case cs of
        [] \<Rightarrow> (RuneError, 1)
      | c1 # cs1 \<Rightarrow>
          let b1 = byte c1 in
          if b1 < fst (acceptRange b0) \<or> snd (acceptRange b0) < b1 then (RuneError, 1)
          else if b0 < 0xE0 then ((b0 - 0xC0) * 64 + (b1 - 0x80), 2)
          else (case cs1 of
            [] \<Rightarrow> (RuneError, 1)
          | c2 # cs2 \<Rightarrow>
              let b2 = byte c2 in
              if \<not> cont b2 then (RuneError, 1)
              else if b0 < 0xF0 then
                ((b0 - 0xE0) * 4096 + (b1 - 0x80) * 64 + (b2 - 0x80), 3)
              else (case cs2 of
                [] \<Rightarrow> (RuneError, 1)
              | c3 # cs3 \<Rightarrow>
                  let b3 = byte c3 in
                  if \<not> cont b3 then (RuneError, 1)
                  else ((b0 - 0xF0) * 262144 + (b1 - 0x80) * 4096
                        + (b2 - 0x80) * 64 + (b3 - 0x80), 4)))))"

text \<open>
  The runes a \<open>for _, c := range s\<close> loop visits: each step decodes one rune and
  advances by its width, an ill-formed byte counting as one \<open>RuneError\<close>. The fuel
  is the number of steps allowed; \<open>length s\<close> steps always reach the end, since a
  step consumes at least one byte.
\<close>

fun runes_fuel :: "nat \<Rightarrow> string \<Rightarrow> rune list" where
  "runes_fuel 0 s = []"
| "runes_fuel (Suc n) s =
     (if s = [] then []
      else (let (c, w) = DecodeRuneInString s in c # runes_fuel n (drop w s)))"

definition runes :: "string \<Rightarrow> rune list" where
  "runes s = runes_fuel (length s) s"

section \<open>Case mapping: \<open>strings.ToUpper\<close>\<close>

text \<open>
  \<open>unicode.ToUpper\<close>: ASCII letters are mapped by arithmetic; every other rune is
  looked up in the Unicode case tables of the host's Go release
  (\<open>unicode.CaseRanges\<close>). The tables are data of the Go distribution, not of this
  program; the lookup \<open>To(UpperCase, r)\<close> is the parameter \<open>tbl\<close>.
\<close>

definition unicode_ToUpper :: "(rune \<Rightarrow> rune) \<Rightarrow> rune \<Rightarrow> rune" where
  "unicode_ToUpper tbl r =
     (if r \<le> 0x7F then (if 0x61 \<le> r \<and> r \<le> 0x7A then r - 0x20 else r)
      else tbl r)"

text \<open>
  \<open>strings.Map(mapping, s)\<close>: every rune of \<open>s\<close> is replaced by the encoding of its
  image; a negative image drops the rune. (The library returns \<open>s\<close> itself when no
  rune changes; it copies the unchanged prefix and encodes from the first change on.
  An ill-formed byte always counts as a change and is written as the encoding of
  \<open>RuneError\<close>.)
\<close>

definition strings_Map :: "(rune \<Rightarrow> rune) \<Rightarrow> string \<Rightarrow> string" where
  "strings_Map mapping s =
     concat (map (\<lambda>c. let r = mapping c in if 0 \<le> r then EncodeRune r else []) (runes s))"

definition isASCII :: "string \<Rightarrow> bool" where
  "isASCII s = list_all (\<lambda>c. byte c < RuneSelf) s"

definition hasLower :: "string \<Rightarrow> bool" where
  "hasLower s = list_ex (\<lambda>c. 0x61 \<le> byte c \<and> byte c \<le> 0x7A) s"

definition upperByte :: "char \<Rightarrow> char" where
  "upperByte c = (if 0x61 \<le> byte c \<and> byte c \<le> 0x7A then char_of (byte c - 0x20) else c)"

text \<open>
  \<open>strings.ToUpper\<close>: a string of ASCII bytes only is mapped byte by byte (and returned
  as it is when it has no lower-case letter); any other string goes through
  \<open>strings.Map(unicode.ToUpper, s)\<close>.
\<close>

definition strings_ToUpper :: "(rune \<Rightarrow> rune) \<Rightarrow> string \<Rightarrow> string" where
  "strings_ToUpper tbl s =
     (if isASCII s then (if \<not> hasLower s then s else map upperByte s)
      else strings_Map (unicode_ToUpper tbl) s)"

section \<open>The service\<close>

text \<open>
  \<open>context.Context\<close>: the methods of the service receive one and never look at it.
  The model has the background context and contexts derived from it with a value or a
  cancellation.
\<close>

datatype Context = Background | WithValue Context string string | WithCancel Context

text \<open>
  Go errors. \<open>errorString\<close> is the type behind \<open>errors.New\<close>; the others are what
  \<open>json.Decoder.Decode\<close> returns.
\<close>

datatype error =
    errorString string
  | SyntaxError string
  | UnmarshalTypeError string
  | io_EOF
  | io_ErrUnexpectedEOF

fun Error :: "error \<Rightarrow> string" where
  "Error (errorString m) = m"
| "Error (SyntaxError m) = m"
| "Error (UnmarshalTypeError m) = ''json: cannot unmarshal '' @ m"
| "Error io_EOF = ''EOF''"
| "Error io_ErrUnexpectedEOF = ''unexpected EOF''"

definition ErrEmpty :: error where
  "ErrEmpty = errorString ''empty string''"

text \<open>
  The methods of \<open>stringService\<close>. A Go \<open>(string, error)\<close> result is a pair whose
  second component is \<open>None\<close> for \<open>nil\<close>.
\<close>

definition stringService_Uppercase ::
  "(rune \<Rightarrow> rune) \<Rightarrow> Context \<Rightarrow> string \<Rightarrow> string \<times> error option" where
  "stringService_Uppercase tbl ctx s =
     (if s = [] then ([], Some ErrEmpty) else (strings_ToUpper tbl s, None))"

definition stringService_Count :: "Context \<Rightarrow> string \<Rightarrow> int" where
  "stringService_Count ctx s = int (length s)"


section \<open>Requests, responses and endpoints\<close>

text \<open>
  The request and response structs. Each has the fields of the source, in its order;
  a constructor application is the positional struct literal
  (\<open>uppercaseResponse{v, ""}\<close>).
\<close>

datatype uppercaseRequest = uppercaseRequest (S: string)

datatype uppercaseResponse = uppercaseResponse (V: string) (Err: string)

datatype countRequest = countRequest (S: string)

datatype countResponse = countResponse (V: int)

text \<open>
  A value of type \<open>interface{}\<close> as this program passes them between decoder, endpoint
  and encoder: \<open>nil\<close>, or one of the four structs tagged with its dynamic type.
\<close>

datatype any =
    nil
  | AnyUppercaseRequest uppercaseRequest
  | AnyUppercaseResponse uppercaseResponse
  | AnyCountRequest countRequest
  | AnyCountResponse countResponse

text \<open>A type assertion \<open>x.(T)\<close> on a value of another dynamic type panics.\<close>

datatype panic = TypeAssertionError

text \<open>
  The interface \<open>StringService\<close>. An implementation may have effects (the middlewares
  of \<open>main.go\<close> log and count), so a method takes the state of the world \<open>'w\<close> and
  returns the new one with its results.
\<close>

record 'w StringService =
  Uppercase :: "Context \<Rightarrow> string \<Rightarrow> 'w \<Rightarrow> (string \<times> error option) \<times> 'w"
  Count :: "Context \<Rightarrow> string \<Rightarrow> 'w \<Rightarrow> int \<times> 'w"

text \<open>\<open>stringService{}\<close> as a \<open>StringService\<close>: its methods have no effect.\<close>

definition stringService :: "(rune \<Rightarrow> rune) \<Rightarrow> 'w StringService" where
  "stringService tbl =
     \<lparr>Uppercase = (\<lambda>ctx s w. (stringService_Uppercase tbl ctx s, w)),
      Count = (\<lambda>ctx s w. (stringService_Count ctx s, w))\<rparr>"

text \<open>
  \<open>endpoint.Endpoint\<close>: \<open>func(ctx, request interface{}) (interface{}, error)\<close>. The
  result is \<open>Inl\<close> of the panic when the endpoint panics.
\<close>

type_synonym 'w Endpoint =
  "Context \<Rightarrow> any \<Rightarrow> 'w \<Rightarrow> (panic + any \<times> error option) \<times> 'w"

definition makeUppercaseEndpoint :: "'w StringService \<Rightarrow> 'w Endpoint" where
  "makeUppercaseEndpoint svc = (\<lambda>ctx request w.
     case request of
       AnyUppercaseRequest req \<Rightarrow>
         (let ((v, err), w') = Uppercase svc ctx (uppercaseRequest.S req) w in
          case err of
            Some e \<Rightarrow> (Inr (AnyUppercaseResponse (uppercaseResponse v (Error e)), None), w')
          | None \<Rightarrow> (Inr (AnyUppercaseResponse (uppercaseResponse v []), None), w'))
     | _ \<Rightarrow> (Inl TypeAssertionError, w))"

definition makeCountEndpoint :: "'w StringService \<Rightarrow> 'w Endpoint" where
  "makeCountEndpoint svc = (\<lambda>ctx request w.
     case request of
       AnyCountRequest req \<Rightarrow>
         (let (v, w') = Count svc ctx (countRequest.S req) w in
          (Inr (AnyCountResponse (countResponse v), None), w'))
     | _ \<Rightarrow> (Inl TypeAssertionError, w))"


section \<open>JSON: the codec of \<open>encoding/json\<close>\<close>

text \<open>
  The transport reads and writes JSON with \<open>json.NewDecoder(r.Body).Decode\<close> and
  \<open>json.NewEncoder(w).Encode\<close>. The codec is modelled on JSON texts as \<open>encoding/json\<close>
  treats them for the four structs of this program.
\<close>

datatype json =
    JNull
  | JBool bool
  | JNumber string
  | JString string
  | JArray "json list"
  | JObject "(string \<times> json) list"

definition isSpace :: "char \<Rightarrow> bool" where
  "isSpace c = (c = CHR '' '' \<or> c = CHR 0x09 \<or> c = CHR 0x0D \<or> c = CHR 0x0A)"

definition isDigit :: "char \<Rightarrow> bool" where
  "isDigit c = (0x30 \<le> byte c \<and> byte c \<le> 0x39)"

definition hexval :: "char \<Rightarrow> int option" where
  "hexval c =
     (let b = byte c in
      if 0x30 \<le> b \<and> b \<le> 0x39 then Some (b - 0x30)
      else if 0x61 \<le> b \<and> b \<le> 0x66 then Some (b - 0x61 + 10)
      else if 0x41 \<le> b \<and> b \<le> 0x46 then Some (b - 0x41 + 10)
      else None)"

text \<open>\<open>getu4\<close>: the code unit of a leading \<open>\uXXXX\<close> escape, if there is one.\<close>

definition getu4 :: "string \<Rightarrow> int option" where
  "getu4 s =
     (case s of
        b # u # h1 # h2 # h3 # h4 # _ \<Rightarrow>
          if b = CHR 0x5C \<and> u = CHR ''u'' then
            (case (hexval h1, hexval h2, hexval h3, hexval h4) of
               (Some x1, Some x2, Some x3, Some x4) \<Rightarrow>
                 Some (x1 * 4096 + x2 * 256 + x3 * 16 + x4)
             | _ \<Rightarrow> None)
          else None
      | _ \<Rightarrow> None)"

definition hexdigit :: "int \<Rightarrow> char" where
  "hexdigit n = (if n < 10 then char_of (0x30 + n) else char_of (0x61 + (n - 10)))"

text \<open>
  \<open>quoteChar\<close>: a byte as the messages of the scanner show it, between single quotes.
  A printable byte stands for itself; the others are written with the escapes of
  \<open>strconv.Quote\<close>, a byte from \<open>0x80\<close> on being taken as the code point of that
  number.
\<close>

definition quoteChar :: "char \<Rightarrow> string" where
  "quoteChar c =
     (let b = byte c in
      [CHR 0x27] @
      (if b = 0x27 then [CHR 0x5C, CHR 0x27]
       else if b = 0x22 then [CHR 0x22]
       else if b = 0x5C then [CHR 0x5C, CHR 0x5C]
       else if 0x20 \<le> b \<and> b < 0x7F then [c]
       else if b = 0x07 then [CHR 0x5C, CHR ''a'']
       else if b = 0x08 then [CHR 0x5C, CHR ''b'']
       else if b = 0x0C then [CHR 0x5C, CHR ''f'']
       else if b = 0x0A then [CHR 0x5C, CHR ''n'']
       else if b = 0x0D then [CHR 0x5C, CHR ''r'']
       else if b = 0x09 then [CHR 0x5C, CHR ''t'']
       else if b = 0x0B then [CHR 0x5C, CHR ''v'']
       else if b < 0x20 \<or> b = 0x7F then [CHR 0x5C, CHR ''x'', hexdigit (b div 16), hexdigit (b mod 16)]
       else if 0xA1 \<le> b \<and> b \<noteq> 0xAD then EncodeRune b
       else [CHR 0x5C, CHR ''u'', CHR ''0'', CHR ''0'', hexdigit (b div 16), hexdigit (b mod 16)])
      @ [CHR 0x27])"

definition syntaxError :: "char \<Rightarrow> string \<Rightarrow> error" where
  "syntaxError c context = SyntaxError (''invalid character '' @ quoteChar c @ '' '' @ context)"

definition prepend :: "string \<Rightarrow> error + string \<times> string \<Rightarrow> error + string \<times> string" where
  "prepend p r = (case r of Inl e \<Rightarrow> Inl e | Inr (t, rest) \<Rightarrow> Inr (p @ t, rest))"

text \<open>
  A string literal, read from behind its opening quote to its closing quote: the value
  it denotes and the input left. Escapes are resolved; a \<open>\u\<close> escape of a surrogate
  half that is not followed by its other half becomes \<open>RuneError\<close>, and so does an
  ill-formed byte of the input.
\<close>

fun scan_string :: "string \<Rightarrow> error + string \<times> string" where
  "scan_string [] = Inl io_ErrUnexpectedEOF"
| "scan_string (c # cs) =
     (if c = CHR 0x22 then Inr ([], cs)
      else if c = CHR 0x5C then
        (case cs of
           [] \<Rightarrow> Inl io_ErrUnexpectedEOF
         | e # cs1 \<Rightarrow>
             if e = CHR ''u'' then
               (if length cs1 < 4 then
                  (case filter (\<lambda>h. hexval h = None) cs1 of
                     [] \<Rightarrow> Inl io_ErrUnexpectedEOF
                   | h # _ \<Rightarrow> Inl (syntaxError h (''in '' @ [CHR 0x5C] @ ''u hexadecimal character escape'')))
                else
                  (case getu4 (c # e # take 4 cs1) of
                     None \<Rightarrow>
                       (case filter (\<lambda>h. hexval h = None) (take 4 cs1) of
                          [] \<Rightarrow> Inl io_ErrUnexpectedEOF
                        | h # _ \<Rightarrow> Inl (syntaxError h (''in '' @ [CHR 0x5C] @ ''u hexadecimal character escape'')))
                   | Some rr \<Rightarrow>
                       if 0xD800 \<le> rr \<and> rr < 0xE000 then
                         (case getu4 (drop 4 cs1) of
                            Some rr1 \<Rightarrow>
                              if rr < 0xDC00 \<and> 0xDC00 \<le> rr1 \<and> rr1 < 0xE000 then
                                prepend
                                  (EncodeRune ((rr - 0xD800) * 1024 + (rr1 - 0xDC00) + 0x10000))
                                  (scan_string (drop 10 cs1))
                              else prepend (EncodeRune RuneError) (scan_string (drop 4 cs1))
                          | None \<Rightarrow> prepend (EncodeRune RuneError) (scan_string (drop 4 cs1)))
                       else prepend (EncodeRune rr) (scan_string (drop 4 cs1))))
             else if e = CHR 0x22 \<or> e = CHR 0x5C \<or> e = CHR ''/'' then prepend [e] (scan_string cs1)
             else if e = CHR ''b'' then prepend [CHR 0x08] (scan_string cs1)
             else if e = CHR ''f'' then prepend [CHR 0x0C] (scan_string cs1)
             else if e = CHR ''n'' then prepend [CHR 0x0A] (scan_string cs1)
             else if e = CHR ''r'' then prepend [CHR 0x0D] (scan_string cs1)
             else if e = CHR ''t'' then prepend [CHR 0x09] (scan_string cs1)
             else Inl (syntaxError e ''in string escape code''))
      else if byte c < 0x20 then Inl (syntaxError c ''in string literal'')
      else if byte c < RuneSelf then prepend [c] (scan_string cs)
      else (let (r, w) = DecodeRuneInString (c # cs) in
            prepend (EncodeRune r) (scan_string (drop (w - 1) cs))))"

text \<open>A number literal: its text and the input left.\<close>

definition scan_digits1 :: "string \<Rightarrow> string \<Rightarrow> error + string \<times> string" where
  "scan_digits1 context s =
     (case s of
        [] \<Rightarrow> Inl io_ErrUnexpectedEOF
      | c # cs \<Rightarrow>
          if isDigit c then Inr (takeWhile isDigit s, dropWhile isDigit s)
          else Inl (syntaxError c context))"

definition scan_int :: "string \<Rightarrow> error + string \<times> string" where
  "scan_int s =
     (case s of
        [] \<Rightarrow> Inl io_ErrUnexpectedEOF
      | c # cs \<Rightarrow>
          if c = CHR ''0'' then Inr ([c], cs)
          else if isDigit c then Inr (takeWhile isDigit s, dropWhile isDigit s)
          else Inl (syntaxError c ''in numeric literal''))"

definition scan_frac :: "string \<Rightarrow> error + string \<times> string" where
  "scan_frac s =
     (case s of
        c # cs \<Rightarrow>
          if c = CHR ''.'' then prepend [c] (scan_digits1 ''after decimal point in numeric literal'' cs)
          else Inr ([], s)
      | [] \<Rightarrow> Inr ([], s))"

definition scan_exp :: "string \<Rightarrow> error + string \<times> string" where
  "scan_exp s =
     (case s of
        c # cs \<Rightarrow>
          if c = CHR ''e'' \<or> c = CHR ''E'' then
            (case cs of
               [] \<Rightarrow> Inl io_ErrUnexpectedEOF
             | g # cs1 \<Rightarrow>
                 if g = CHR ''+'' \<or> g = CHR ''-'' then
                   prepend [c, g] (scan_digits1 ''in exponent of numeric literal'' cs1)
                 else prepend [c] (scan_digits1 ''in exponent of numeric literal'' cs))
          else Inr ([], s)
      | [] \<Rightarrow> Inr ([], s))"

definition scan_number :: "string \<Rightarrow> error + string \<times> string" where
  "scan_number s =
     (let (sign, s0) = (case s of c # cs \<Rightarrow> if c = CHR ''-'' then ([c], cs) else ([], s) | [] \<Rightarrow> ([], s))
      in case scan_int s0 of
           Inl e \<Rightarrow> Inl e
         | Inr (i, s1) \<Rightarrow>
             (case scan_frac s1 of
                Inl e \<Rightarrow> Inl e
              | Inr (f, s2) \<Rightarrow> prepend (sign @ i @ f) (scan_exp s2)))"

text \<open>
  One of the literals \<open>true\<close>, \<open>false\<close> and \<open>null\<close>, read from behind its first
  letter: the input left behind it. The first argument is the literal, for the message
  of an error; the second is what of it is still to come.
\<close>

fun scan_literal :: "string \<Rightarrow> string \<Rightarrow> string \<Rightarrow> error + string" where
  "scan_literal name [] s = Inr s"
| "scan_literal name (l # ls) [] = Inl io_ErrUnexpectedEOF"
| "scan_literal name (l # ls) (c # cs) =
     (if c = l then scan_literal name ls cs
      else Inl (syntaxError c
             (''in literal '' @ name @ '' (expecting '' @ [CHR 0x27, l, CHR 0x27] @ '')'')))"

definition maxNestingDepth :: nat where
  "maxNestingDepth = 10000"

text \<open>
  A JSON value, with the input left behind it. The first argument bounds the number of
  nested calls; \<open>json_Decode_value\<close> gives two calls for every byte of the input,
  which is more than a text can use, since two nested calls never go without reading a
  byte. The second argument is the nesting depth of arrays and objects, which the
  library limits.
\<close>

fun parse_value :: "nat \<Rightarrow> nat \<Rightarrow> string \<Rightarrow> error + json \<times> string"
  and parse_elements :: "nat \<Rightarrow> nat \<Rightarrow> string \<Rightarrow> error + json list \<times> string"
  and parse_members :: "nat \<Rightarrow> nat \<Rightarrow> string \<Rightarrow> error + (string \<times> json) list \<times> string"
where
  "parse_value 0 depth s = Inl (SyntaxError ''exceeded max depth'')"
| "parse_value (Suc n) depth s =
     (case dropWhile isSpace s of
        [] \<Rightarrow> Inl io_ErrUnexpectedEOF
      | c # cs \<Rightarrow>
          if c = CHR ''{'' then
            (if maxNestingDepth \<le> depth then Inl (syntaxError c ''exceeded max depth'')
             else case dropWhile isSpace cs of
               [] \<Rightarrow> Inl io_ErrUnexpectedEOF
             | d # ds \<Rightarrow>
                 if d = CHR ''}'' then Inr (JObject [], ds)
                 else (case parse_members n (Suc depth) (d # ds) of
                         Inl e \<Rightarrow> Inl e
                       | Inr (ms, rest) \<Rightarrow> Inr (JObject ms, rest)))
          else if c = CHR ''['' then
            (if maxNestingDepth \<le> depth then Inl (syntaxError c ''exceeded max depth'')
             else case dropWhile isSpace cs of
               [] \<Rightarrow> Inl io_ErrUnexpectedEOF
             | d # ds \<Rightarrow>
                 if d = CHR '']'' then Inr (JArray [], ds)
                 else (case parse_elements n (Suc depth) (d # ds) of
                         Inl e \<Rightarrow> Inl e
                       | Inr (vs, rest) \<Rightarrow> Inr (JArray vs, rest)))
          else if c = CHR 0x22 then
            (case scan_string cs of
               Inl e \<Rightarrow> Inl e
             | Inr (str, rest) \<Rightarrow> Inr (JString str, rest))
          else if c = CHR ''-'' \<or> isDigit c then
            (case scan_number (c # cs) of
               Inl e \<Rightarrow> Inl e
             | Inr (num, rest) \<Rightarrow> Inr (JNumber num, rest))
          else if c = CHR ''t'' then
            (case scan_literal ''true'' ''rue'' cs of Inl e \<Rightarrow> Inl e | Inr rest \<Rightarrow> Inr (JBool True, rest))
          else if c = CHR ''f'' then
            (case scan_literal ''false'' ''alse'' cs of Inl e \<Rightarrow> Inl e | Inr rest \<Rightarrow> Inr (JBool False, rest))
          else if c = CHR ''n'' then
            (case scan_literal ''null'' ''ull'' cs of Inl e \<Rightarrow> Inl e | Inr rest \<Rightarrow> Inr (JNull, rest))
          else Inl (syntaxError c ''looking for beginning of value''))"
| "parse_elements 0 depth s = Inl (SyntaxError ''exceeded max depth'')"
| "parse_elements (Suc n) depth s =
     (case parse_value n depth s of
        Inl e \<Rightarrow> Inl e
      | Inr (v, rest) \<Rightarrow>
          (case dropWhile isSpace rest of
             [] \<Rightarrow> Inl io_ErrUnexpectedEOF
           | c # cs \<Rightarrow>
               if c = CHR '','' then
                 (case parse_elements n depth cs of
                    Inl e \<Rightarrow> Inl e
                  | Inr (vs, rest1) \<Rightarrow> Inr (v # vs, rest1))
               else if c = CHR '']'' then Inr ([v], cs)
               else Inl (syntaxError c ''after array element'')))"
| "parse_members 0 depth s = Inl (SyntaxError ''exceeded max depth'')"
| "parse_members (Suc n) depth s =
     (case dropWhile isSpace s of
        [] \<Rightarrow> Inl io_ErrUnexpectedEOF
      | q # qs \<Rightarrow>
          if q \<noteq> CHR 0x22 then Inl (syntaxError q ''looking for beginning of object key string'')
          else (case scan_string qs of
            Inl e \<Rightarrow> Inl e
          | Inr (k, rest) \<Rightarrow>
              (case dropWhile isSpace rest of
                 [] \<Rightarrow> Inl io_ErrUnexpectedEOF
               | d # ds \<Rightarrow>
                   if d \<noteq> CHR '':'' then Inl (syntaxError d ''after object key'')
                   else (case parse_value n depth ds of
                     Inl e \<Rightarrow> Inl e
                   | Inr (v, rest1) \<Rightarrow>
                       (case dropWhile isSpace rest1 of
                          [] \<Rightarrow> Inl io_ErrUnexpectedEOF
                        | c # cs \<Rightarrow>
                            if c = CHR '','' then
                              (case parse_members n depth cs of
                                 Inl e \<Rightarrow> Inl e
                               | Inr (ms, rest2) \<Rightarrow> Inr ((k, v) # ms, rest2))
                            else if c = CHR ''}'' then Inr ([(k, v)], cs)
                            else Inl (syntaxError c ''after object key:value pair''))))))"

text \<open>
  What \<open>Decoder.Decode\<close> reads from a body: the first JSON value of the stream. An
  empty stream is \<open>io.EOF\<close>, a stream that ends inside a value
  \<open>io.ErrUnexpectedEOF\<close>. The decoder stops at the end of the value: the bytes
  behind it stay unread, whatever they are.
\<close>

definition json_Decode_value :: "string \<Rightarrow> error + json" where
  "json_Decode_value body =
     (case dropWhile isSpace body of
        [] \<Rightarrow> Inl io_EOF
      | c # cs \<Rightarrow>
          (case parse_value (2 * length (c # cs) + 2) 0 (c # cs) of
             Inl e \<Rightarrow> Inl e
           | Inr (v, rest) \<Rightarrow> Inr v))"


text \<open>
  Whether an object key names the field \<open>S\<close> with tag \<open>json:"s"\<close>: the key equals the
  tag, or equals it under Unicode case folding, which identifies \<open>s\<close>, \<open>S\<close> and the
  long s (U+017F).
\<close>

definition matchesFieldS :: "string \<Rightarrow> bool" where
  "matchesFieldS key = (key = ''s'' \<or> key = ''S'' \<or> key = [CHR 0xC5, CHR 0xBF])"

definition kindName :: "json \<Rightarrow> string" where
  "kindName v =
     (case v of
        JNull \<Rightarrow> ''null''
      | JBool b \<Rightarrow> ''bool''
      | JNumber n \<Rightarrow> ''number''
      | JString x \<Rightarrow> ''string''
      | JArray vs \<Rightarrow> ''array''
      | JObject ms \<Rightarrow> ''object'')"

text \<open>
  Storing the members of a JSON object into a struct whose only field is
  \<open>S string `json:"s"`\<close>. The state is the field and the first error: a string
  is stored, \<open>null\<close> leaves the field as it is, any other value is a type error,
  which is remembered while decoding goes on; a key that names no field is skipped.
\<close>

fun unmarshal_members :: "string \<Rightarrow> (string \<times> json) list \<Rightarrow> string \<times> error option \<Rightarrow> string \<times> error option" where
  "unmarshal_members ty [] st = st"
| "unmarshal_members ty ((k, v) # ms) (cur, err) =
     (if matchesFieldS k then
        (case v of
           JString x \<Rightarrow> unmarshal_members ty ms (x, err)
         | JNull \<Rightarrow> unmarshal_members ty ms (cur, err)
         | _ \<Rightarrow>
             unmarshal_members ty ms
               (cur, (case err of
                        Some e \<Rightarrow> Some e
                      | None \<Rightarrow> Some (UnmarshalTypeError
                          (kindName v @ '' into Go struct field '' @ ty @ ''.s of type string'')))))
      else unmarshal_members ty ms (cur, err))"

definition unmarshal_S :: "string \<Rightarrow> json \<Rightarrow> string \<Rightarrow> string \<times> error option" where
  "unmarshal_S ty v cur =
     (case v of
        JObject ms \<Rightarrow> unmarshal_members ty ms (cur, None)
      | JNull \<Rightarrow> (cur, None)
      | _ \<Rightarrow> (cur, Some (UnmarshalTypeError
                 (kindName v @ '' into Go value of type main.'' @ ty))))"

text \<open>
  \<open>json.NewDecoder(body).Decode(&x)\<close> for such a struct \<open>x\<close>, given the value of its
  field before: the value of the field after, and the error.
\<close>

definition Decode_S :: "string \<Rightarrow> string \<Rightarrow> string \<Rightarrow> string \<times> error option" where
  "Decode_S ty body cur =
     (case json_Decode_value body of
        Inl e \<Rightarrow> (cur, Some e)
      | Inr v \<Rightarrow> unmarshal_S ty v cur)"

subsection \<open>Encoding\<close>

definition digit :: "nat \<Rightarrow> char" where
  "digit n = char_of (0x30 + n)"

function nat_digits :: "nat \<Rightarrow> string" where
  "nat_digits n = (if n < 10 then [digit n] else nat_digits (n div 10) @ [digit (n mod 10)])"
  by pat_completeness auto
termination
  by (relation "measure id") auto

text \<open>\<open>strconv.Itoa\<close>: a Go \<open>int\<close> in decimal.\<close>

definition Itoa :: "int \<Rightarrow> string" where
  "Itoa i = (if i < 0 then CHR ''-'' # nat_digits (nat (- i)) else nat_digits (nat i))"

text \<open>
  The bytes that the encoder writes as they are inside a string (\<open>htmlSafeSet\<close>): the
  printable ASCII bytes and \<open>0x7F\<close>, but for the double quote, the backslash and the
  three characters \<open><\<close>, \<open>>\<close> and \<open>&\<close>, which an \<open>Encoder\<close> escapes by default.
\<close>

definition htmlSafe :: "int \<Rightarrow> bool" where
  "htmlSafe b = (0x20 \<le> b \<and> b < 0x80 \<and> b \<noteq> 0x22 \<and> b \<noteq> 0x5C
                 \<and> b \<noteq> 0x3C \<and> b \<noteq> 0x3E \<and> b \<noteq> 0x26)"

text \<open>
  The body of an encoded string. An ill-formed byte is written as the escape of
  U+FFFD; U+2028 and U+2029 are escaped; any other rune is copied.
\<close>

fun escape_chars :: "string \<Rightarrow> string" where
  "escape_chars [] = []"
| "escape_chars (c # cs) =
     (let b = byte c in
      if b < RuneSelf then
        (if htmlSafe b then [c]
         else if b = 0x5C \<or> b = 0x22 then [CHR 0x5C, c]
         else if b = 0x08 then [CHR 0x5C, CHR ''b'']
         else if b = 0x0C then [CHR 0x5C, CHR ''f'']
         else if b = 0x0A then [CHR 0x5C, CHR ''n'']
         else if b = 0x0D then [CHR 0x5C, CHR ''r'']
         else if b = 0x09 then [CHR 0x5C, CHR ''t'']
         else [CHR 0x5C, CHR ''u'', CHR ''0'', CHR ''0'', hexdigit (b div 16), hexdigit (b mod 16)])
        @ escape_chars cs
      else
        (let (r, w) = DecodeRuneInString (c # cs) in
         if r = RuneError \<and> w = 1 then
           [CHR 0x5C] @ ''ufffd'' @ escape_chars cs
         else if r = 0x2028 \<or> r = 0x2029 then
           [CHR 0x5C] @ ''u202'' @ [hexdigit (r mod 16)] @ escape_chars (drop (w - 1) cs)
         else take w (c # cs) @ escape_chars (drop (w - 1) cs)))"

definition quote :: "string \<Rightarrow> string" where
  "quote s = [CHR 0x22] @ escape_chars s @ [CHR 0x22]"

text \<open>
  The JSON value of what an endpoint or a decoder returns. A struct is an object with
  its fields in their order, under the names of their tags; the tag of \<open>Err\<close> is
  \<open>json:"err,omitempty"\<close>, so the field is left out when it is the empty string.
\<close>

definition json_of_any :: "any \<Rightarrow> json" where
  "json_of_any x =
     (case x of
        nil \<Rightarrow> JNull
      | AnyUppercaseRequest r \<Rightarrow> JObject [(''s'', JString (uppercaseRequest.S r))]
      | AnyUppercaseResponse r \<Rightarrow>
          JObject ((''v'', JString (uppercaseResponse.V r)) #
                   (if Err r = [] then [] else [(''err'', JString (Err r))]))
      | AnyCountRequest r \<Rightarrow> JObject [(''s'', JString (countRequest.S r))]
      | AnyCountResponse r \<Rightarrow> JObject [(''V'', JNumber (Itoa (countResponse.V r)))])"

text \<open>The compact text of a JSON value, as \<open>json.Marshal\<close> writes it.\<close>

fun intersperse :: "string \<Rightarrow> string list \<Rightarrow> string" where
  "intersperse sep [] = []"
| "intersperse sep [x] = x"
| "intersperse sep (x # y # ys) = x @ sep @ intersperse sep (y # ys)"

fun render :: "json \<Rightarrow> string" where
  "render JNull = ''null''"
| "render (JBool b) = (if b then ''true'' else ''false'')"
| "render (JNumber n) = n"
| "render (JString x) = quote x"
| "render (JArray vs) = ''['' @ intersperse '','' (map render vs) @ '']''"
| "render (JObject ms) =
     ''{'' @ intersperse '','' (map (\<lambda>m. quote (fst m) @ '':'' @ render (snd m)) ms) @ ''}''"

definition Marshal :: "any \<Rightarrow> string" where
  "Marshal x = render (json_of_any x)"

text \<open>\<open>Encoder.Encode\<close> writes the text of the value and a newline.\<close>

definition Encode :: "any \<Rightarrow> string" where
  "Encode x = Marshal x @ [CHR 0x0A]"

section \<open>The HTTP transport\<close>

text \<open>An \<open>http.Request\<close>: its context and the bytes of its body.\<close>

record Request =
  Ctx :: Context
  Body :: string

definition decodeUppercaseRequest :: "Context \<Rightarrow> Request \<Rightarrow> any \<times> error option" where
  "decodeUppercaseRequest ctx r =
     (let request = uppercaseRequest [];
          (s', err) = Decode_S ''uppercaseRequest'' (Body r) (uppercaseRequest.S request)
      in case err of
           Some e \<Rightarrow> (nil, Some e)
         | None \<Rightarrow> (AnyUppercaseRequest (uppercaseRequest s'), None))"

definition decodCountRequest :: "Context \<Rightarrow> Request \<Rightarrow> any \<times> error option" where
  "decodCountRequest ctx r =
     (let req = countRequest [];
          (s', err) = Decode_S ''countRequest'' (Body r) (countRequest.S req)
      in case err of
           Some e \<Rightarrow> (nil, Some e)
         | None \<Rightarrow> (AnyCountRequest (countRequest s'), None))"

text \<open>
  \<open>encodeResponse\<close>: the response writer is the bytes written to the body so far; the
  encoder appends to them. Encoding one of the values above does not fail.
\<close>

definition encodeResponse :: "Context \<Rightarrow> string \<Rightarrow> any \<Rightarrow> string \<times> error option" where
  "encodeResponse ctx w response = (w @ Encode response, None)"

text \<open>
  \<open>httptransport.NewServer(e, dec, enc)\<close> of go-kit and its method \<open>ServeHTTP\<close>: the
  request is decoded, the endpoint is called on the decoded value, and its response is
  encoded into the body of a reply with status 200. An error of the decoder, of the
  endpoint or of the encoder ends the request: it goes to the error encoder of the
  server, which writes a reply that reports a failure; what it writes is \<open>Failed\<close>
  with the error. A panic of the endpoint is not recovered by the server.
\<close>

record 'w Server =
  srv_e :: "'w Endpoint"
  srv_dec :: "Context \<Rightarrow> Request \<Rightarrow> any \<times> error option"
  srv_enc :: "Context \<Rightarrow> string \<Rightarrow> any \<Rightarrow> string \<times> error option"

definition NewServer ::
  "'w Endpoint \<Rightarrow> (Context \<Rightarrow> Request \<Rightarrow> any \<times> error option)
     \<Rightarrow> (Context \<Rightarrow> string \<Rightarrow> any \<Rightarrow> string \<times> error option) \<Rightarrow> 'w Server" where
  "NewServer e dec enc = \<lparr>srv_e = e, srv_dec = dec, srv_enc = enc\<rparr>"

datatype reply = OK string | Failed error

definition ServeHTTP :: "'w Server \<Rightarrow> Request \<Rightarrow> 'w \<Rightarrow> (panic + reply) \<times> 'w" where
  "ServeHTTP s r w =
     (let ctx = Ctx r; (request, err) = srv_dec s ctx r in
      case err of
        Some e1 \<Rightarrow> (Inr (Failed e1), w)
      | None \<Rightarrow>
          (case srv_e s ctx request w of
             (Inl p, w') \<Rightarrow> (Inl p, w')
           | (Inr (response, err2), w') \<Rightarrow>
               (case err2 of
                  Some e2 \<Rightarrow> (Inr (Failed e2), w')
                | None \<Rightarrow>
                    (case srv_enc s ctx [] response of
                       (body, Some e3) \<Rightarrow> (Inr (Failed e3), w')
                     | (body, None) \<Rightarrow> (Inr (OK body), w')))))"

text \<open>
  The handlers that \<open>main\<close> registers for \<open>/uppercase\<close> and \<open>/count\<close>, over a
  service \<open>svc\<close>.
\<close>

definition uppercaseHandler :: "'w StringService \<Rightarrow> 'w Server" where
  "uppercaseHandler svc = NewServer (makeUppercaseEndpoint svc) decodeUppercaseRequest encodeResponse"

definition countHandler :: "'w StringService \<Rightarrow> 'w Server" where
  "countHandler svc = NewServer (makeCountEndpoint svc) decodCountRequest encodeResponse"


section \<open>The middlewares of \<open>main.go\<close>\<close>

text \<open>
  \<open>main.go\<close> wraps the service in \<open>loggingMiddleware{logger, svc}\<close> and then in
  \<open>instrumentingMiddleware{requestCount, requestLatency, countResult, svc}\<close>. The two
  types are declared in files of the repository that are not among the sources at hand,
  so their methods are modelled from the specification. What they act on is the state
  of the world: the host clock, the records the logger has written, and the metrics.
\<close>

record world =
  clock :: "nat \<Rightarrow> int"
  clock_reads :: nat
  log_up :: bool
  log_records :: "(string \<times> string) list list"
  metrics_up :: bool
  request_count :: "string list \<Rightarrow> nat"
  request_latency :: "(string list \<times> int) list"
  count_result :: "int list"

text \<open>
  \<open>time.Now()\<close>: the next reading of the host clock, in microseconds. \<open>clock w\<close> is the
  sequence of the readings the host will give.
\<close>

definition time_Now :: "world \<Rightarrow> int \<times> world" where
  "time_Now w = (clock w (clock_reads w), w\<lparr>clock_reads := Suc (clock_reads w)\<rparr>)"

text \<open>
  The collaborators that \<open>main\<close> makes with go-kit: the logger
  (\<open>log.NewLogfmtLogger(os.Stderr)\<close>), the counter \<open>requestCount\<close> and the summaries
  \<open>requestLatency\<close> and \<open>countResult\<close>. A logger takes the key/value pairs of a record
  and returns an error when its sink is down; a counter and a summary take the label
  values of an observation, and lose it when the metrics backend is down.
\<close>

type_synonym Logger = "(string \<times> string) list \<Rightarrow> world \<Rightarrow> error option \<times> world"

type_synonym Counter = "string list \<Rightarrow> world \<Rightarrow> world"

type_synonym Summary = "string list \<Rightarrow> int \<Rightarrow> world \<Rightarrow> world"

definition logger :: Logger where
  "logger keyvals w =
     (if log_up w then (None, w\<lparr>log_records := log_records w @ [keyvals]\<rparr>)
      else (Some (errorString ''log sink unavailable''), w))"

definition requestCount :: Counter where
  "requestCount lvs w =
     (if metrics_up w
      then w\<lparr>request_count := (request_count w)(lvs := Suc (request_count w lvs))\<rparr>
      else w)"

definition requestLatency :: Summary where
  "requestLatency lvs d w =
     (if metrics_up w then w\<lparr>request_latency := request_latency w @ [(lvs, d)]\<rparr> else w)"

definition countResult :: Summary where
  "countResult lvs n w =
     (if metrics_up w then w\<lparr>count_result := count_result w @ [n]\<rparr> else w)"

definition errText :: "error option \<Rightarrow> string" where
  "errText err = (case err of None \<Rightarrow> ''null'' | Some x \<Rightarrow> Error x)"

text \<open>
  Modelled from the spec: the methods of \<open>loggingMiddleware\<close>, whose declaration is not
  among the sources (Logging Decorator, section 4.2). A call reads the clock, delegates to
  the wrapped service, and on return emits one record with the method, the input, the
  output, the error and the time taken. The error of the logger is dropped. The
  results of the wrapped service are returned as they are.
\<close>

definition loggingMiddleware :: "Logger \<Rightarrow> world StringService \<Rightarrow> world StringService" where
  "loggingMiddleware lg next =
     \<lparr>Uppercase = (\<lambda>ctx s w.
        let (begin, w1) = time_Now w;
            ((output, err), w2) = Uppercase next ctx s w1;
            (now, w3) = time_Now w2;
            (_, w4) = lg [(''method'', ''uppercase''), (''input'', s), (''output'', output),
                          (''err'', errText err), (''took'', Itoa (now - begin))] w3
        in ((output, err), w4)),
      Count = (\<lambda>ctx s w.
        let (begin, w1) = time_Now w;
            (n, w2) = Count next ctx s w1;
            (now, w3) = time_Now w2;
            (_, w4) = lg [(''method'', ''count''), (''input'', s), (''n'', Itoa n),
                          (''took'', Itoa (now - begin))] w3
        in (n, w4))\<rparr>"

text \<open>
  Modelled from the spec: the methods of \<open>instrumentingMiddleware\<close>, whose declaration is
  not among the sources (Instrumentation Decorator, section 4.3). A call reads the clock,
  delegates, and then increments the request counter and records the latency, both
  labelled with the method and whether there was an error; \<open>Count\<close> also records its
  result in a summary without labels. The results of the wrapped service are returned
  as they are.
\<close>

definition instrumentingMiddleware ::
  "Counter \<Rightarrow> Summary \<Rightarrow> Summary \<Rightarrow> world StringService \<Rightarrow> world StringService" where
  "instrumentingMiddleware rc rl cr next =
     \<lparr>Uppercase = (\<lambda>ctx s w.
        let (begin, w1) = time_Now w;
            ((output, err), w2) = Uppercase next ctx s w1;
            (now, w3) = time_Now w2;
            lvs = [''method'', ''uppercase'', ''error'', if err \<noteq> None then ''true'' else ''false'']
        in ((output, err), rl lvs (now - begin) (rc lvs w3))),
      Count = (\<lambda>ctx s w.
        let (begin, w1) = time_Now w;
            (n, w2) = Count next ctx s w1;
            (now, w3) = time_Now w2;
            lvs = [''method'', ''count'', ''error'', ''false'']
        in (n, cr [] n (rl lvs (now - begin) (rc lvs w3))))\<rparr>"

text \<open>The service that \<open>main\<close> of \<open>main.go\<close> builds, in its order of wrapping.\<close>

definition main_svc :: "(rune \<Rightarrow> rune) \<Rightarrow> world StringService" where
  "main_svc tbl =
     instrumentingMiddleware requestCount requestLatency countResult
       (loggingMiddleware logger (stringService tbl))"


section \<open>The case table of the host, and sample data\<close>

text \<open>
  The case table of the host: \<open>unicode.CaseRanges\<close> of the Go distribution (Unicode
  15.0.0), as far as \<open>unicode.ToUpper\<close> reads it. An entry is a run of runes from
  \<open>Lo\<close> to \<open>Hi\<close> with the offset \<open>Delta\<close> to their upper case; the offset
  \<open>UpperLower\<close> marks a run in which upper-case and lower-case letters alternate,
  beginning with an upper-case one. Runs that \<open>ToUpper\<close> does not move (offset 0) are
  left out.
\<close>

definition MaxRune :: rune where
  "MaxRune = 0x10FFFF"

definition UpperLower :: rune where
  "UpperLower = MaxRune + 1"

datatype CaseRange = CaseRange (Lo: rune) (Hi: rune) (Delta: rune)

definition CaseRanges :: "CaseRange list" where
  "CaseRanges =
    [CaseRange 0x00B5 0x00B5 743, CaseRange 0x00E0 0x00F6 (-32),
     CaseRange 0x00F8 0x00FE (-32), CaseRange 0x00FF 0x00FF 121,
     CaseRange 0x0100 0x012F UpperLower, CaseRange 0x0131 0x0131 (-232),
     CaseRange 0x0132 0x0137 UpperLower, CaseRange 0x0139 0x0148 UpperLower,
     CaseRange 0x014A 0x0177 UpperLower, CaseRange 0x0179 0x017E UpperLower,
     CaseRange 0x017F 0x017F (-300), CaseRange 0x0180 0x0180 195,
     CaseRange 0x0182 0x0185 UpperLower, CaseRange 0x0188 0x0188 (-1),
     CaseRange 0x018C 0x018C (-1), CaseRange 0x0192 0x0192 (-1),
     CaseRange 0x0195 0x0195 97, CaseRange 0x0199 0x0199 (-1), CaseRange 0x019A 0x019A 163,
     CaseRange 0x019E 0x019E 130, CaseRange 0x01A0 0x01A5 UpperLower,
     CaseRange 0x01A8 0x01A8 (-1), CaseRange 0x01AD 0x01AD (-1),
     CaseRange 0x01B0 0x01B0 (-1), CaseRange 0x01B3 0x01B6 UpperLower,
     CaseRange 0x01B9 0x01B9 (-1), CaseRange 0x01BD 0x01BD (-1),
     CaseRange 0x01BF 0x01BF 56, CaseRange 0x01C5 0x01C5 (-1),
     CaseRange 0x01C6 0x01C6 (-2), CaseRange 0x01C8 0x01C8 (-1),
     CaseRange 0x01C9 0x01C9 (-2), CaseRange 0x01CB 0x01CB (-1),
     CaseRange 0x01CC 0x01CC (-2), CaseRange 0x01CD 0x01DC UpperLower,
     CaseRange 0x01DD 0x01DD (-79), CaseRange 0x01DE 0x01EF UpperLower,
     CaseRange 0x01F2 0x01F2 (-1), CaseRange 0x01F3 0x01F3 (-2),
     CaseRange 0x01F5 0x01F5 (-1), CaseRange 0x01F8 0x021F UpperLower,
     CaseRange 0x0222 0x0233 UpperLower, CaseRange 0x023C 0x023C (-1),
     CaseRange 0x023F 0x0240 10815, CaseRange 0x0242 0x0242 (-1),
     CaseRange 0x0246 0x024F UpperLower, CaseRange 0x0250 0x0250 10783,
     CaseRange 0x0251 0x0251 10780, CaseRange 0x0252 0x0252 10782,
     CaseRange 0x0253 0x0253 (-210), CaseRange 0x0254 0x0254 (-206),
     CaseRange 0x0256 0x0257 (-205), CaseRange 0x0259 0x0259 (-202),
     CaseRange 0x025B 0x025B (-203), CaseRange 0x025C 0x025C 42319,
     CaseRange 0x0260 0x0260 (-205), CaseRange 0x0261 0x0261 42315,
     CaseRange 0x0263 0x0263 (-207), CaseRange 0x0265 0x0265 42280,
     CaseRange 0x0266 0x0266 42308, CaseRange 0x0268 0x0268 (-209),
     CaseRange 0x0269 0x0269 (-211), CaseRange 0x026A 0x026A 42308,
     CaseRange 0x026B 0x026B 10743, CaseRange 0x026C 0x026C 42305,
     CaseRange 0x026F 0x026F (-211), CaseRange 0x0271 0x0271 10749,
     CaseRange 0x0272 0x0272 (-213), CaseRange 0x0275 0x0275 (-214),
     CaseRange 0x027D 0x027D 10727, CaseRange 0x0280 0x0280 (-218),
     CaseRange 0x0282 0x0282 42307, CaseRange 0x0283 0x0283 (-218),
     CaseRange 0x0287 0x0287 42282, CaseRange 0x0288 0x0288 (-218),
     CaseRange 0x0289 0x0289 (-69), CaseRange 0x028A 0x028B (-217),
     CaseRange 0x028C 0x028C (-71), CaseRange 0x0292 0x0292 (-219),
     CaseRange 0x029D 0x029D 42261, CaseRange 0x029E 0x029E 42258,
     CaseRange 0x0345 0x0345 84, CaseRange 0x0370 0x0373 UpperLower,
     CaseRange 0x0377 0x0377 (-1), CaseRange 0x037B 0x037D 130,
     CaseRange 0x03AC 0x03AC (-38), CaseRange 0x03AD 0x03AF (-37),
     CaseRange 0x03B1 0x03C1 (-32), CaseRange 0x03C2 0x03C2 (-31),
     CaseRange 0x03C3 0x03CB (-32), CaseRange 0x03CC 0x03CC (-64),
     CaseRange 0x03CD 0x03CE (-63), CaseRange 0x03D0 0x03D0 (-62),
     CaseRange 0x03D1 0x03D1 (-57), CaseRange 0x03D5 0x03D5 (-47),
     CaseRange 0x03D6 0x03D6 (-54), CaseRange 0x03D7 0x03D7 (-8),
     CaseRange 0x03D8 0x03EF UpperLower, CaseRange 0x03F0 0x03F0 (-86),
     CaseRange 0x03F1 0x03F1 (-80), CaseRange 0x03F2 0x03F2 7,
     CaseRange 0x03F3 0x03F3 (-116), CaseRange 0x03F5 0x03F5 (-96),
     CaseRange 0x03F8 0x03F8 (-1), CaseRange 0x03FB 0x03FB (-1),
     CaseRange 0x0430 0x044F (-32), CaseRange 0x0450 0x045F (-80),
     CaseRange 0x0460 0x0481 UpperLower, CaseRange 0x048A 0x04BF UpperLower,
     CaseRange 0x04C1 0x04CE UpperLower, CaseRange 0x04CF 0x04CF (-15),
     CaseRange 0x04D0 0x052F UpperLower, CaseRange 0x0561 0x0586 (-48),
     CaseRange 0x10D0 0x10FA 3008, CaseRange 0x10FD 0x10FF 3008,
     CaseRange 0x13F8 0x13FD (-8), CaseRange 0x1C80 0x1C80 (-6254),
     CaseRange 0x1C81 0x1C81 (-6253), CaseRange 0x1C82 0x1C82 (-6244),
     CaseRange 0x1C83 0x1C84 (-6242), CaseRange 0x1C85 0x1C85 (-6243),
     CaseRange 0x1C86 0x1C86 (-6236), CaseRange 0x1C87 0x1C87 (-6181),
     CaseRange 0x1C88 0x1C88 35266, CaseRange 0x1D79 0x1D79 35332,
     CaseRange 0x1D7D 0x1D7D 3814, CaseRange 0x1D8E 0x1D8E 35384,
     CaseRange 0x1E00 0x1E95 UpperLower, CaseRange 0x1E9B 0x1E9B (-59),
     CaseRange 0x1EA0 0x1EFF UpperLower, CaseRange 0x1F00 0x1F07 8,
     CaseRange 0x1F10 0x1F15 8, CaseRange 0x1F20 0x1F27 8, CaseRange 0x1F30 0x1F37 8,
     CaseRange 0x1F40 0x1F45 8, CaseRange 0x1F51 0x1F51 8, CaseRange 0x1F53 0x1F53 8,
     CaseRange 0x1F55 0x1F55 8, CaseRange 0x1F57 0x1F57 8, CaseRange 0x1F60 0x1F67 8,
     CaseRange 0x1F70 0x1F71 74, CaseRange 0x1F72 0x1F75 86, CaseRange 0x1F76 0x1F77 100,
     CaseRange 0x1F78 0x1F79 128, CaseRange 0x1F7A 0x1F7B 112, CaseRange 0x1F7C 0x1F7D 126,
     CaseRange 0x1F80 0x1F87 8, CaseRange 0x1F90 0x1F97 8, CaseRange 0x1FA0 0x1FA7 8,
     CaseRange 0x1FB0 0x1FB1 8, CaseRange 0x1FB3 0x1FB3 9, CaseRange 0x1FBE 0x1FBE (-7205),
     CaseRange 0x1FC3 0x1FC3 9, CaseRange 0x1FD0 0x1FD1 8, CaseRange 0x1FE0 0x1FE1 8,
     CaseRange 0x1FE5 0x1FE5 7, CaseRange 0x1FF3 0x1FF3 9, CaseRange 0x214E 0x214E (-28),
     CaseRange 0x2170 0x217F (-16), CaseRange 0x2184 0x2184 (-1),
     CaseRange 0x24D0 0x24E9 (-26), CaseRange 0x2C30 0x2C5F (-48),
     CaseRange 0x2C61 0x2C61 (-1), CaseRange 0x2C65 0x2C65 (-10795),
     CaseRange 0x2C66 0x2C66 (-10792), CaseRange 0x2C67 0x2C6C UpperLower,
     CaseRange 0x2C73 0x2C73 (-1), CaseRange 0x2C76 0x2C76 (-1),
     CaseRange 0x2C80 0x2CE3 UpperLower, CaseRange 0x2CEB 0x2CEE UpperLower,
     CaseRange 0x2CF3 0x2CF3 (-1), CaseRange 0x2D00 0x2D25 (-7264),
     CaseRange 0x2D27 0x2D27 (-7264), CaseRange 0x2D2D 0x2D2D (-7264),
     CaseRange 0xA640 0xA66D UpperLower, CaseRange 0xA680 0xA69B UpperLower,
     CaseRange 0xA722 0xA72F UpperLower, CaseRange 0xA732 0xA76F UpperLower,
     CaseRange 0xA779 0xA77C UpperLower, CaseRange 0xA77E 0xA787 UpperLower,
     CaseRange 0xA78C 0xA78C (-1), CaseRange 0xA790 0xA793 UpperLower,
     CaseRange 0xA794 0xA794 48, CaseRange 0xA796 0xA7A9 UpperLower,
     CaseRange 0xA7B4 0xA7C3 UpperLower, CaseRange 0xA7C7 0xA7CA UpperLower,
     CaseRange 0xA7D1 0xA7D1 (-1), CaseRange 0xA7D6 0xA7D9 UpperLower,
     CaseRange 0xA7F6 0xA7F6 (-1), CaseRange 0xAB53 0xAB53 (-928),
     CaseRange 0xAB70 0xABBF (-38864), CaseRange 0xFF41 0xFF5A (-32),
     CaseRange 0x10428 0x1044F (-40), CaseRange 0x104D8 0x104FB (-40),
     CaseRange 0x10597 0x105A1 (-39), CaseRange 0x105A3 0x105B1 (-39),
     CaseRange 0x105B3 0x105B9 (-39), CaseRange 0x105BB 0x105BC (-39),
     CaseRange 0x10CC0 0x10CF2 (-64), CaseRange 0x118C0 0x118DF (-32),
     CaseRange 0x16E60 0x16E7F (-32), CaseRange 0x1E922 0x1E943 (-34)]"

text \<open>
  \<open>unicode.To(UpperCase, r)\<close>: the entry that holds \<open>r\<close> gives its image; in an
  alternating run the image is the rune at the even offset below. A rune in no entry
  is its own image. (The library finds the entry by binary search; the entries are
  sorted and disjoint.)
\<close>

fun to_upper :: "CaseRange list \<Rightarrow> rune \<Rightarrow> rune" where
  "to_upper [] r = r"
| "to_upper (cr # crs) r =
     (if Lo cr \<le> r \<and> r \<le> Hi cr then
        (if Delta cr > MaxRune then Lo cr + ((r - Lo cr) - (r - Lo cr) mod 2)
         else r + Delta cr)
      else to_upper crs r)"

definition hostTable :: "rune \<Rightarrow> rune" where
  "hostTable r = to_upper CaseRanges r"

text \<open>Entries in increasing order, none empty, no two sharing a rune.\<close>

fun sortedRanges :: "CaseRange list \<Rightarrow> bool" where
  "sortedRanges [] = True"
| "sortedRanges [cr] = (Lo cr \<le> Hi cr)"
| "sortedRanges (cr # cr' # crs) = (Lo cr \<le> Hi cr \<and> Hi cr < Lo cr' \<and> sortedRanges (cr' # crs))"


text \<open>
  A check of a case table that can be run on the table: the images of every entry are
  valid runes that the table does not move again. The images of an entry with an offset
  are the runes of an interval; they are ASCII bytes other than lower-case letters, or
  they lie in no entry of the table, but for a single image at an even offset of an
  alternating run. The images of an alternating run are its own runes at even offsets.
\<close>

definition fixedIn :: "CaseRange list \<Rightarrow> rune \<Rightarrow> rune \<Rightarrow> bool \<Rightarrow> bool" where
  "fixedIn t a b p =
     list_all (\<lambda>cr. b < Lo cr \<or> Hi cr < a
                    \<or> (MaxRune < Delta cr \<and> p \<and> (a - Lo cr) mod 2 = 0)) t"

definition validIv :: "rune \<Rightarrow> rune \<Rightarrow> bool" where
  "validIv a b = (0x7F < a \<and> (b < 0xD800 \<or> (0xDFFF < a \<and> b \<le> 0x10FFFF)))"

definition asciiIv :: "rune \<Rightarrow> rune \<Rightarrow> bool" where
  "asciiIv a b = (0 \<le> a \<and> b \<le> 0x7F \<and> (b < 0x61 \<or> 0x7A < a))"

definition entryOK :: "CaseRange list \<Rightarrow> CaseRange \<Rightarrow> bool" where
  "entryOK t cr =
     (if MaxRune < Delta cr then validIv (Lo cr) (Hi cr) \<and> fixedIn t (Lo cr) (Hi cr) True
      else asciiIv (Lo cr + Delta cr) (Hi cr + Delta cr)
           \<or> (validIv (Lo cr + Delta cr) (Hi cr + Delta cr)
               \<and> fixedIn t (Lo cr + Delta cr) (Hi cr + Delta cr)
                    (Lo cr + Delta cr = Hi cr + Delta cr)))"

definition tableOK :: "CaseRange list \<Rightarrow> bool" where
  "tableOK t = list_all (entryOK t) t"

text \<open>
  The property of a case table under which upper-casing twice is upper-casing once: a
  rune beyond ASCII is mapped to a valid rune that \<open>unicode.ToUpper\<close> leaves as it is.
  The table of the host has it (\<open>hostTable_idempotent\<close> below).
\<close>

definition idempotentTable :: "(rune \<Rightarrow> rune) \<Rightarrow> bool" where
  "idempotentTable tbl =
     (\<forall>r. ValidRune r \<and> 0x7F < r \<longrightarrow>
        ValidRune (tbl r) \<and> unicode_ToUpper tbl (tbl r) = tbl r)"

text \<open>
  A small case table to run the service on, a part of the table of the host: the
  accented letters of Latin-1, with \<open>U+00FF\<close> going to \<open>U+0178\<close>, and the dotless i
  (\<open>U+0131\<close>) going to the ASCII letter \<open>I\<close>.
\<close>

definition latin1Table :: "rune \<Rightarrow> rune" where
  "latin1Table r =
     (if 0xE0 \<le> r \<and> r \<le> 0xFE \<and> r \<noteq> 0xF7 then r - 0x20
      else if r = 0xFF then 0x178
      else if r = 0x131 then 0x49
      else r)"

text \<open>A state of the world: a clock that ticks by 7, a logger and metrics that are up.\<close>

definition world0 :: world where
  "world0 =
     \<lparr>clock = (\<lambda>n. 100 + 7 * int n), clock_reads = 0, log_up = True, log_records = [],
      metrics_up = True, request_count = (\<lambda>_. 0), request_latency = [], count_result = []\<rparr>"


section \<open>UTF-8 and case mapping: lemmas\<close>

lemma byte_bounds: "0 \<le> byte c" "byte c < 256"
proof -
  have "byte c = int (of_char c)" by (simp add: byte_def of_nat_of_char)
  then show "0 \<le> byte c" "byte c < 256" using nat_of_char_less_256[of c] by auto
qed

lemma byte_char_of: "0 \<le> x \<Longrightarrow> x < 256 \<Longrightarrow> byte (char_of x) = x"
  by (simp add: byte_def)

lemma decode2:
  assumes "2 \<le> q" "q < 32" "0 \<le> l" "l < 64"
  shows "DecodeRuneInString (char_of (0xC0 + q) # char_of (0x80 + l) # rest) = (q * 64 + l, 2)"
proof -
  have b0: "byte (char_of (0xC0 + q)) = 0xC0 + q" using assms by (intro byte_char_of) linarith+
  have b1: "byte (char_of (0x80 + l)) = 0x80 + l" using assms by (intro byte_char_of) linarith+
  have ne: "0xC0 + q \<noteq> 0xE0" "0xC0 + q \<noteq> 0xED" "0xC0 + q \<noteq> 0xF0" "0xC0 + q \<noteq> 0xF4"
    using assms by linarith+
  show ?thesis using assms ne
    by (simp add: b0 b1 RuneSelf_def acceptRange_def Let_def)
qed

lemma decode3:
  assumes "0 \<le> q" "q < 16" "0 \<le> m" "m < 64" "0 \<le> l" "l < 64"
     "q = 0 \<longrightarrow> 32 \<le> m" "q = 13 \<longrightarrow> m < 32"
  shows "DecodeRuneInString (char_of (0xE0 + q) # char_of (0x80 + m) # char_of (0x80 + l) # rest)
     = (q * 4096 + m * 64 + l, 3)"
proof -
  have b0: "byte (char_of (0xE0 + q)) = 0xE0 + q" using assms by (intro byte_char_of) linarith+
  have b1: "byte (char_of (0x80 + m)) = 0x80 + m" using assms by (intro byte_char_of) linarith+
  have b2: "byte (char_of (0x80 + l)) = 0x80 + l" using assms by (intro byte_char_of) linarith+
  have ar: "fst (acceptRange (0xE0 + q)) \<le> 0x80 + m" "0x80 + m \<le> snd (acceptRange (0xE0 + q))"
    using assms by (auto simp: acceptRange_def)
  have c: "cont (0x80 + l)" using assms by (simp add: cont_def)
  have r: "\<not> 0xE0 + q < RuneSelf" "\<not> (0xE0 + q < 0xC2 \<or> 0xF4 < 0xE0 + q)" "\<not> 0xE0 + q < 0xE0" "0xE0 + q < 0xF0"
    using assms by (simp_all add: RuneSelf_def)
  show ?thesis using ar c r
    by (simp add: b0 b1 b2 Let_def del: acceptRange_def)
qed

lemma decode4:
  assumes "0 \<le> q" "q < 5" "0 \<le> n" "n < 64" "0 \<le> m" "m < 64" "0 \<le> l" "l < 64"
     "q = 0 \<longrightarrow> 16 \<le> n" "q = 4 \<longrightarrow> n < 16"
  shows "DecodeRuneInString (char_of (0xF0 + q) # char_of (0x80 + n) # char_of (0x80 + m) # char_of (0x80 + l) # rest)
     = (q * 262144 + n * 4096 + m * 64 + l, 4)"
proof -
  have b0: "byte (char_of (0xF0 + q)) = 0xF0 + q" using assms by (intro byte_char_of) linarith+
  have b1: "byte (char_of (0x80 + n)) = 0x80 + n" using assms by (intro byte_char_of) linarith+
  have b2: "byte (char_of (0x80 + m)) = 0x80 + m" using assms by (intro byte_char_of) linarith+
  have b3: "byte (char_of (0x80 + l)) = 0x80 + l" using assms by (intro byte_char_of) linarith+
  have ar: "fst (acceptRange (0xF0 + q)) \<le> 0x80 + n" "0x80 + n \<le> snd (acceptRange (0xF0 + q))"
    using assms by (auto simp: acceptRange_def)
  have c: "cont (0x80 + l)" "cont (0x80 + m)" using assms by (simp_all add: cont_def)
  have r: "\<not> 0xF0 + q < RuneSelf" "\<not> (0xF0 + q < 0xC2 \<or> 0xF4 < 0xF0 + q)" "\<not> 0xF0 + q < 0xE0" "\<not> 0xF0 + q < 0xF0"
    using assms by (simp_all add: RuneSelf_def)
  show ?thesis using ar c r
    by (simp add: b0 b1 b2 b3 Let_def)
qed

lemma digits64:
  fixes r :: int
  shows "r = (r div 64) * 64 + r mod 64" "0 \<le> r mod 64" "r mod 64 < 64"
  by simp_all

lemma decode_encode:
  assumes "ValidRune r"
  shows "DecodeRuneInString (EncodeRune r @ rest) = (r, length (EncodeRune r))"
proof -
  define d1 where "d1 = r div 64"
  define l where "l = r mod 64"
  define d2 where "d2 = d1 div 64"
  define m where "m = d1 mod 64"
  define d3 where "d3 = d2 div 64"
  define n where "n = d2 mod 64"
  have s1: "r = d1 * 64 + l" "0 \<le> l" "l < 64"
    unfolding d1_def l_def by (rule digits64)+
  have s2: "d1 = d2 * 64 + m" "0 \<le> m" "m < 64"
    unfolding d2_def m_def by (rule digits64)+
  have s3: "d2 = d3 * 64 + n" "0 \<le> n" "n < 64"
    unfolding d3_def n_def by (rule digits64)+
  have d2: "d2 = r div 4096" unfolding d2_def d1_def by (simp add: zdiv_zmult2_eq)
  have d3: "d3 = r div 262144" unfolding d3_def d2 by (simp add: zdiv_zmult2_eq)
  have m: "m = (r div 64) mod 64" by (simp add: m_def d1_def)
  have n: "n = (r div 4096) mod 64" using d2 by (simp add: n_def)
  consider "r \<le> 0x7F" | "0x7F < r" "r \<le> 0x7FF" | "0x7FF < r" "r \<le> 0xFFFF" | "0xFFFF < r"
    by linarith
  then show ?thesis
  proof cases
    case 1
    then show ?thesis using assms by (simp add: EncodeRune_def ValidRune_def byte_char_of RuneSelf_def)
  next
    case 2
    have a: "2 \<le> d1" "d1 < 32" "0 \<le> l" "l < 64"
      using 2 s1 by linarith+
    have e: "EncodeRune r = [char_of (0xC0 + d1), char_of (0x80 + l)]"
      using 2 by (simp add: EncodeRune_def d1_def l_def)
    show ?thesis unfolding e using decode2[OF a, of rest] s1(1) by simp
  next
    case 3
    have a: "0 \<le> d2" "d2 < 16" "0 \<le> m" "m < 64" "0 \<le> l" "l < 64" 
      "d2 = 0 \<longrightarrow> 32 \<le> m" "d2 = 13 \<longrightarrow> m < 32"
      using 3 assms s1 s2 unfolding ValidRune_def by linarith+
    have ns: "\<not> (r < 0 \<or> 0x10FFFF < r \<or> (0xD800 \<le> r \<and> r \<le> 0xDFFF))"
      using 3 assms unfolding ValidRune_def by linarith
    have e: "EncodeRune r = [char_of (0xE0 + d2), char_of (0x80 + m), char_of (0x80 + l)]"
      unfolding EncodeRune_def using 3 ns by (auto simp add: d2 m l_def)
    have rr: "d2 * 4096 + m * 64 + l = r" using s1 s2 by linarith
    show ?thesis unfolding e using decode3[OF a, of rest] rr by simp
  next
    case 4
    have a: "0 \<le> d3" "d3 < 5" "0 \<le> n" "n < 64" "0 \<le> m" "m < 64" "0 \<le> l" "l < 64" 
      "d3 = 0 \<longrightarrow> 16 \<le> n" "d3 = 4 \<longrightarrow> n < 16"
      using 4 assms s1 s2 s3 unfolding ValidRune_def by linarith+
    have ns: "\<not> (r < 0 \<or> 0x10FFFF < r \<or> (0xD800 \<le> r \<and> r \<le> 0xDFFF))"
      using 4 assms unfolding ValidRune_def by linarith
    have e: "EncodeRune r = [char_of (0xF0 + d3), char_of (0x80 + n), char_of (0x80 + m), char_of (0x80 + l)]"
      unfolding EncodeRune_def using 4 ns by (auto simp add: d3 n m l_def)
    have rr: "d3 * 262144 + n * 4096 + m * 64 + l = r" using s1 s2 s3 by linarith
    show ?thesis unfolding e using decode4[OF a, of rest] rr by simp
  qed
qed


lemma decode_width: "s \<noteq> [] \<Longrightarrow> 1 \<le> snd (DecodeRuneInString s) \<and> snd (DecodeRuneInString s) \<le> length s"
  by (cases s) (auto simp: Let_def split: list.splits)

lemma decode_valid: "ValidRune (fst (DecodeRuneInString s))"
proof (cases s)
  case Nil
  then show ?thesis by (simp add: ValidRune_def RuneError_def)
next
  case (Cons c0 cs)
  have e: "ValidRune RuneError" by (simp add: ValidRune_def RuneError_def)
  show ?thesis unfolding Cons
    using byte_bounds[of c0] 
    apply (simp add: Let_def e split: list.splits)
    apply (intro conjI impI allI)
    using byte_bounds 
    apply (auto simp: ValidRune_def acceptRange_def cont_def RuneSelf_def split: if_splits)
    done
qed

lemma runes_fuel_enough:
  "length s \<le> n \<Longrightarrow> length s \<le> m \<Longrightarrow> runes_fuel n s = runes_fuel m s"
proof (induction n arbitrary: m s)
  case 0
  then show ?case by (cases m) auto
next
  case (Suc n)
  show ?case
  proof (cases "s = []")
    case True
    then show ?thesis by (cases m) auto
  next
    case False
    then obtain m' where m: "m = Suc m'" using Suc.prems by (cases m) auto
    obtain c w where d: "DecodeRuneInString s = (c, w)" by fastforce
    have w: "1 \<le> w" "w \<le> length s" using decode_width[OF False] d by auto
    have "runes_fuel n (drop w s) = runes_fuel m' (drop w s)"
      using Suc.prems w m by (intro Suc.IH) auto
    then show ?thesis using False d m by simp
  qed
qed

lemma runes_Nil: "runes [] = []"
  by (simp add: runes_def)

lemma runes_step:
  assumes "s \<noteq> []"
  shows "runes s = fst (DecodeRuneInString s) # runes (drop (snd (DecodeRuneInString s)) s)"
proof -
  obtain n where n: "length s = Suc n" using assms by (cases s) auto
  have w: "1 \<le> snd (DecodeRuneInString s)" using decode_width[OF assms] by simp
  have "runes_fuel n (drop (snd (DecodeRuneInString s)) s)
      = runes_fuel (length (drop (snd (DecodeRuneInString s)) s)) (drop (snd (DecodeRuneInString s)) s)"
    using n w by (intro runes_fuel_enough) auto
  then show ?thesis using assms n by (simp add: runes_def split_beta)
qed

lemma runes_valid: "list_all ValidRune (runes s)"
proof (induction "length s" arbitrary: s rule: less_induct)
  case less
  show ?case
  proof (cases "s = []")
    case True
    then show ?thesis by (simp add: runes_Nil)
  next
    case False
    have "length (drop (snd (DecodeRuneInString s)) s) < length s"
      using decode_width[OF False] False by auto
    then have "list_all ValidRune (runes (drop (snd (DecodeRuneInString s)) s))"
      by (rule less)
    then show ?thesis using runes_step[OF False] decode_valid[of s] by simp
  qed
qed

lemma encode_nonempty: "EncodeRune r \<noteq> []"
  by (simp add: EncodeRune_def)

lemma runes_encode:
  assumes "ValidRune r"
  shows "runes (EncodeRune r @ rest) = r # runes rest"
proof -
  have ne: "EncodeRune r @ rest \<noteq> []" using encode_nonempty by simp
  show ?thesis using runes_step[OF ne] decode_encode[OF assms, of rest] by simp
qed

lemma runes_concat_encode:
  "list_all ValidRune rs \<Longrightarrow> runes (concat (map EncodeRune rs)) = rs"
  by (induction rs) (simp_all add: runes_Nil runes_encode)


lemma upper_valid:
  assumes "idempotentTable tbl" "ValidRune r"
  shows "ValidRune (unicode_ToUpper tbl r)" "0 \<le> unicode_ToUpper tbl r"
    "unicode_ToUpper tbl (unicode_ToUpper tbl r) = unicode_ToUpper tbl r"
proof -
  show v: "ValidRune (unicode_ToUpper tbl r)"
  proof (cases "r \<le> 0x7F")
    case True
    then show ?thesis using assms(2) by (auto simp: unicode_ToUpper_def ValidRune_def)
  next
    case False
    then show ?thesis using assms by (simp add: unicode_ToUpper_def idempotentTable_def)
  qed
  then show "0 \<le> unicode_ToUpper tbl r" by (auto simp: ValidRune_def)
  show "unicode_ToUpper tbl (unicode_ToUpper tbl r) = unicode_ToUpper tbl r"
  proof (cases "r \<le> 0x7F")
    case True
    then show ?thesis by (simp add: unicode_ToUpper_def)
  next
    case False
    then have "unicode_ToUpper tbl r = tbl r" by (simp add: unicode_ToUpper_def)
    then show ?thesis using assms False by (simp add: idempotentTable_def)
  qed
qed

lemma Map_upper:
  assumes "idempotentTable tbl"
  shows "strings_Map (unicode_ToUpper tbl) s = concat (map EncodeRune (map (unicode_ToUpper tbl) (runes s)))"
proof -
  have "\<forall>c \<in> set (runes s). 0 \<le> unicode_ToUpper tbl c"
    using runes_valid[of s] upper_valid(2)[OF assms] by (auto simp: list_all_iff)
  then have eq: "map (\<lambda>c. let r = unicode_ToUpper tbl c in if 0 \<le> r then EncodeRune r else []) (runes s)
     = map (\<lambda>c. EncodeRune (unicode_ToUpper tbl c)) (runes s)"
    by (intro map_cong) (simp_all add: Let_def)
  show ?thesis unfolding strings_Map_def eq by (simp add: comp_def)
qed

lemma runes_Map_upper:
  assumes "idempotentTable tbl"
  shows "runes (strings_Map (unicode_ToUpper tbl) s) = map (unicode_ToUpper tbl) (runes s)"
proof -
  have "list_all ValidRune (map (unicode_ToUpper tbl) (runes s))"
    using runes_valid[of s] upper_valid(1)[OF assms] by (auto simp: list_all_iff)
  then show ?thesis unfolding Map_upper[OF assms] by (rule runes_concat_encode)
qed

lemma runes_ASCII: "isASCII s \<Longrightarrow> runes s = map byte s"
proof (induction s)
  case Nil
  then show ?case by (simp add: runes_Nil)
next
  case (Cons c cs)
  then have c: "byte c < RuneSelf" and cs: "isASCII cs" by (simp_all add: isASCII_def)
  have "DecodeRuneInString (c # cs) = (byte c, 1)" using c by (simp add: Let_def)
  then show ?case using runes_step[of "c # cs"] Cons.IH[OF cs] by simp
qed

lemma upperByte_ASCII:
  assumes "byte c < RuneSelf"
  shows "byte (upperByte c) < RuneSelf" "\<not> (0x61 \<le> byte (upperByte c) \<and> byte (upperByte c) \<le> 0x7A)"
proof -
  have "byte (upperByte c) = (if 0x61 \<le> byte c \<and> byte c \<le> 0x7A then byte c - 0x20 else byte c)"
    by (simp add: upperByte_def byte_char_of)
  then show "byte (upperByte c) < RuneSelf" "\<not> (0x61 \<le> byte (upperByte c) \<and> byte (upperByte c) \<le> 0x7A)"
    using assms by (auto simp: RuneSelf_def split: if_splits)
qed

lemma ToUpper_ASCII_fixed:
  assumes "isASCII s"
  shows "isASCII (strings_ToUpper tbl s)" "\<not> hasLower (strings_ToUpper tbl s)"
  using assms upperByte_ASCII
  by (auto simp: strings_ToUpper_def isASCII_def hasLower_def list_all_iff list_ex_iff)

lemma ToUpper_idem:
  assumes "idempotentTable tbl"
  shows "strings_ToUpper tbl (strings_ToUpper tbl s) = strings_ToUpper tbl s"
proof (cases "isASCII s")
  case True
  show ?thesis using ToUpper_ASCII_fixed[OF True, of tbl]
    by (simp add: strings_ToUpper_def[of tbl "strings_ToUpper tbl s"])
next
  case False
  define t where "t = strings_Map (unicode_ToUpper tbl) s"
  have t: "strings_ToUpper tbl s = t" using False by (simp add: strings_ToUpper_def t_def)
  have rt: "runes t = map (unicode_ToUpper tbl) (runes s)"
    unfolding t_def by (rule runes_Map_upper[OF assms])
  have fixed: "map (unicode_ToUpper tbl) (runes t) = runes t"
    unfolding rt using runes_valid[of s] upper_valid(3)[OF assms]
    by (auto simp: list_all_iff)
  show ?thesis
  proof (cases "isASCII t")
    case True
    have "\<not> hasLower t"
    proof
      assume "hasLower t"
      then obtain c where c: "c \<in> set t" "0x61 \<le> byte c" "byte c \<le> 0x7A"
        by (auto simp: hasLower_def list_ex_iff)
      have "byte c \<in> set (runes t)" using c(1) runes_ASCII[OF True] by simp
      then have "unicode_ToUpper tbl (byte c) = byte c"
        using fixed by (metis map_eq_conv map_ident)
      then show False using c(2,3) by (simp add: unicode_ToUpper_def split: if_splits)
    qed
    then show ?thesis unfolding t using True by (simp add: strings_ToUpper_def)
  next
    case nonascii: False
    have "strings_ToUpper tbl t = strings_Map (unicode_ToUpper tbl) t"
      using nonascii by (simp add: strings_ToUpper_def)
    also have "\<dots> = concat (map EncodeRune (map (unicode_ToUpper tbl) (runes t)))"
      by (rule Map_upper[OF assms])
    also have "\<dots> = concat (map EncodeRune (runes t))" by (simp only: fixed)
    also have "\<dots> = t" unfolding rt unfolding t_def Map_upper[OF assms] ..
    finally show ?thesis unfolding t .
  qed
qed

lemma ToUpper_nonempty:
  assumes "idempotentTable tbl" "s \<noteq> []"
  shows "strings_ToUpper tbl s \<noteq> []"
proof (cases "isASCII s")
  case True
  then show ?thesis using assms(2) by (simp add: strings_ToUpper_def)
next
  case False
  have "runes s \<noteq> []" using runes_step[OF assms(2)] by simp
  then obtain c cs where "runes s = c # cs" by (cases "runes s") auto
  then show ?thesis using False encode_nonempty
    by (simp add: strings_ToUpper_def Map_upper[OF assms(1)])
qed


lemma upperByte_noLower: "\<not> hasLower s \<Longrightarrow> map upperByte s = s"
  by (induction s) (auto simp: hasLower_def upperByte_def)

section \<open>The case table of the host: lemmas\<close>

lemma to_upper_cases:
  "to_upper t r = r
   \<or> (\<exists>cr \<in> set t. Lo cr \<le> r \<and> r \<le> Hi cr
         \<and> to_upper t r = (if MaxRune < Delta cr then Lo cr + ((r - Lo cr) - (r - Lo cr) mod 2)
                             else r + Delta cr))"
  by (induction t) auto

lemma fixedIn_fixed:
  assumes "fixedIn t a b p" and "a \<le> u" and "u \<le> b" and "(u - a) mod 2 = 0"
  shows "to_upper t u = u"
  using assms(1)
proof (induction t)
  case Nil
  then show ?case by simp
next
  case (Cons cr t)
  then have rest: "fixedIn t a b p"
    and here: "b < Lo cr \<or> Hi cr < a \<or> (MaxRune < Delta cr \<and> p \<and> (a - Lo cr) mod 2 = 0)"
    by (simp_all add: fixedIn_def)
  show ?case
  proof (cases "Lo cr \<le> u \<and> u \<le> Hi cr")
    case False
    then show ?thesis using Cons.IH[OF rest] by auto
  next
    case True
    with here assms(2,3) have alt: "MaxRune < Delta cr" and par: "(a - Lo cr) mod 2 = 0"
      by auto
    have "u - Lo cr = (u - a) + (a - Lo cr)" by simp
    then have "(u - Lo cr) mod 2 = 0" using assms(4) par by presburger
    then show ?thesis using True alt by simp
  qed
qed

lemma tableOK_idempotent:
  assumes "tableOK t"
  shows "idempotentTable (to_upper t)"
  unfolding idempotentTable_def
proof (intro allI impI)
  fix r :: rune
  assume r: "ValidRune r \<and> 0x7F < r"
  show "ValidRune (to_upper t r) \<and> unicode_ToUpper (to_upper t) (to_upper t r) = to_upper t r"
  proof (cases "to_upper t r = r")
    case True
    then show ?thesis using r by (simp add: unicode_ToUpper_def)
  next
    case False
    then obtain cr where cr: "cr \<in> set t" "Lo cr \<le> r" "r \<le> Hi cr"
      and img: "to_upper t r = (if MaxRune < Delta cr then Lo cr + ((r - Lo cr) - (r - Lo cr) mod 2)
                                else r + Delta cr)"
      using to_upper_cases[of t r] by blast
    have ok: "entryOK t cr" using assms cr(1) by (simp add: tableOK_def list_all_iff)
    define u where "u = to_upper t r"
    show ?thesis
    proof (cases "MaxRune < Delta cr")
      case True
      then have v: "validIv (Lo cr) (Hi cr)" and f: "fixedIn t (Lo cr) (Hi cr) True"
        using ok by (simp_all add: entryOK_def)
      have ur: "u = Lo cr + ((r - Lo cr) - (r - Lo cr) mod 2)" using img True by (simp add: u_def)
      have m: "0 \<le> (r - Lo cr) mod 2" "(r - Lo cr) mod 2 \<le> r - Lo cr"
        using cr(2) by (simp_all add: zmod_le_nonneg_dividend)
      have b: "Lo cr \<le> u" "u \<le> Hi cr" using ur m cr(3) by linarith+
      have par: "(u - Lo cr) mod 2 = 0" unfolding ur by presburger
      have fx: "to_upper t u = u" by (rule fixedIn_fixed[OF f b par])
      have val: "ValidRune u" "0x7F < u" using v b by (auto simp: validIv_def ValidRune_def)
      show ?thesis using fx val unfolding u_def[symmetric] by (simp add: unicode_ToUpper_def)
    next
      case False
      then have ur: "u = r + Delta cr" using img by (simp add: u_def)
      define a where "a = Lo cr + Delta cr"
      define b where "b = Hi cr + Delta cr"
      have ab: "a \<le> u" "u \<le> b" using ur cr(2,3) by (simp_all add: a_def b_def)
      from ok False have "asciiIv a b \<or> (validIv a b \<and> fixedIn t a b (a = b))"
        by (simp add: entryOK_def a_def b_def)
      then show ?thesis
      proof
        assume "asciiIv a b"
        then have "0 \<le> u" "u \<le> 0x7F" "u < 0x61 \<or> 0x7A < u"
          using ab by (auto simp: asciiIv_def)
        then show ?thesis unfolding u_def[symmetric]
          by (auto simp: ValidRune_def unicode_ToUpper_def)
      next
        assume h: "validIv a b \<and> fixedIn t a b (a = b)"
        then have val: "ValidRune u" "0x7F < u" using ab by (auto simp: validIv_def ValidRune_def)
        have fx: "to_upper t u = u"
        proof (cases "a = b")
          case True
          then have "u = a" using ab by simp
          then show ?thesis using fixedIn_fixed[of t a b "a = b" u] h ab by simp
        next
          case ne: False
          have "fixedIn t u u False"
            using h ne ab by (auto simp: fixedIn_def list_all_iff)
          then show ?thesis using fixedIn_fixed[of t u u False u] by simp
        qed
        show ?thesis using fx val unfolding u_def[symmetric] by (simp add: unicode_ToUpper_def)
      qed
    qed
  qed
qed

lemma CaseRanges_sorted: "sortedRanges CaseRanges"
  by (simp add: CaseRanges_def)

lemma CaseRanges_ok: "tableOK CaseRanges"
  unfolding tableOK_def
  apply (subst (2) CaseRanges_def)
  apply (simp only: list.pred_inject)
  apply (intro conjI TrueI)
  apply (simp_all add: entryOK_def fixedIn_def validIv_def asciiIv_def CaseRanges_def
      MaxRune_def UpperLower_def)
  done

lemma hostTable_idempotent: "idempotentTable hostTable"
proof -
  have "hostTable = to_upper CaseRanges" by (rule ext) (simp add: hostTable_def)
  then show ?thesis using tableOK_idempotent[OF CaseRanges_ok] by simp
qed

lemma encode_upper_ASCII:
  assumes "byte c < RuneSelf"
  shows "EncodeRune (unicode_ToUpper tbl (byte c)) = [upperByte c]"
proof -
  have b: "0 \<le> byte c" "byte c < 256" by (rule byte_bounds)+
  have c: "char_of (byte c) = c" by (simp add: byte_def)
  show ?thesis
    using assms b c
    by (auto simp: unicode_ToUpper_def upperByte_def EncodeRune_def RuneSelf_def)
qed

lemma ToUpper_runewise:
  assumes "idempotentTable tbl"
  shows "strings_ToUpper tbl s
       = concat (map (\<lambda>c. EncodeRune (unicode_ToUpper tbl c)) (runes s))"
proof (cases "isASCII s")
  case True
  have "list_all (\<lambda>c. byte c < RuneSelf) s \<Longrightarrow>
      concat (map (\<lambda>c. EncodeRune (unicode_ToUpper tbl c)) (map byte s)) = map upperByte s"
    by (induction s) (simp_all add: encode_upper_ASCII)
  then have "concat (map (\<lambda>c. EncodeRune (unicode_ToUpper tbl c)) (runes s)) = map upperByte s"
    using True by (simp add: runes_ASCII isASCII_def)
  moreover have "strings_ToUpper tbl s = map upperByte s"
    using True upperByte_noLower[of s] by (simp add: strings_ToUpper_def)
  ultimately show ?thesis by simp
next
  case False
  then show ?thesis
    using Map_upper[OF assms, of s] by (simp add: strings_ToUpper_def comp_def)
qed

lemma runes_ToUpper:
  assumes "idempotentTable tbl"
  shows "runes (strings_ToUpper tbl s) = map (unicode_ToUpper tbl) (runes s)"
proof -
  have v: "list_all ValidRune (map (unicode_ToUpper tbl) (runes s))"
    using runes_valid[of s] upper_valid(1)[OF assms] by (auto simp: list_all_iff)
  have "strings_ToUpper tbl s = concat (map EncodeRune (map (unicode_ToUpper tbl) (runes s)))"
    using ToUpper_runewise[OF assms, of s] by (simp add: comp_def)
  then show ?thesis using runes_concat_encode[OF v] by simp
qed

section \<open>The service: \<open>Uppercase\<close> and \<open>Count\<close>\<close>

text \<open>
  C1. For every non-empty string \<open>s\<close> and any context, \<open>Uppercase(ctx, s)\<close> returns the
  upper-case transform of \<open>s\<close> and a nil error. The transform is \<open>strings.ToUpper(s)\<close>
  with the case table of the host: rune by rune, the result is the UTF-8 encoding of the
  images of the runes of \<open>s\<close> under \<open>unicode.ToUpper\<close> (a byte of \<open>s\<close> that is not
  well-formed UTF-8 reads as U+FFFD), so the runes of the result are these images. On
  a string of ASCII bytes it maps every byte \<open>a\<close> to \<open>z\<close> to its capital and leaves the
  others.
\<close>

theorem Uppercase_nonempty:
  assumes "s \<noteq> []"
  shows "stringService_Uppercase hostTable ctx s = (strings_ToUpper hostTable s, None)
       \<and> fst (stringService_Uppercase hostTable ctx s)
           = concat (map (\<lambda>c. EncodeRune (unicode_ToUpper hostTable c)) (runes s))
       \<and> runes (fst (stringService_Uppercase hostTable ctx s))
           = map (unicode_ToUpper hostTable) (runes s)
       \<and> (isASCII s \<longrightarrow> fst (stringService_Uppercase hostTable ctx s) = map upperByte s)"
proof -
  have u: "stringService_Uppercase hostTable ctx s = (strings_ToUpper hostTable s, None)"
    using assms by (simp add: stringService_Uppercase_def)
  have a: "isASCII s \<longrightarrow> strings_ToUpper hostTable s = map upperByte s"
    using upperByte_noLower[of s] by (simp add: strings_ToUpper_def)
  show ?thesis
    unfolding u fst_conv
    using ToUpper_runewise[OF hostTable_idempotent, of s] runes_ToUpper[OF hostTable_idempotent, of s] a
    by blast
qed

theorem Uppercase_nonempty_witness:
  "[CHR ''h'', CHR 0xC3, CHR 0xA9, CHR '' '', CHR 0xC5, CHR 0xBF, CHR 0xC7, CHR 0x86, CHR 0xFF] \<noteq> []
   \<and> runes [CHR ''h'', CHR 0xC3, CHR 0xA9, CHR '' '', CHR 0xC5, CHR 0xBF, CHR 0xC7, CHR 0x86, CHR 0xFF]
       = [0x68, 0xE9, 0x20, 0x17F, 0x1C6, 0xFFFD]
   \<and> map (unicode_ToUpper hostTable) [0x68, 0xE9, 0x20, 0x17F, 0x1C6, 0xFFFD]
       = [0x48, 0xC9, 0x20, 0x53, 0x1C4, 0xFFFD]
   \<and> stringService_Uppercase hostTable Background
         [CHR ''h'', CHR 0xC3, CHR 0xA9, CHR '' '', CHR 0xC5, CHR 0xBF, CHR 0xC7, CHR 0x86, CHR 0xFF]
       = ([CHR ''H'', CHR 0xC3, CHR 0x89, CHR '' '', CHR ''S'', CHR 0xC7, CHR 0x84,
           CHR 0xEF, CHR 0xBF, CHR 0xBD], None)
   \<and> isASCII ''hello, World''
   \<and> stringService_Uppercase hostTable Background ''hello, World'' = (''HELLO, WORLD'', None)"
proof -
  define s where "s = [CHR ''h'', CHR 0xC3, CHR 0xA9, CHR '' '', CHR 0xC5, CHR 0xBF, CHR 0xC7, CHR 0x86, CHR 0xFF]"
  have ne: "s \<noteq> []" by (simp add: s_def)
  have r: "runes s = [0x68, 0xE9, 0x20, 0x17F, 0x1C6, 0xFFFD]"
    unfolding s_def by code_simp
  have m: "map (unicode_ToUpper hostTable) [0x68, 0xE9, 0x20, 0x17F, 0x1C6, 0xFFFD]
       = [0x48, 0xC9, 0x20, 0x53, 0x1C4, 0xFFFD]"
    by (simp add: unicode_ToUpper_def hostTable_def CaseRanges_def MaxRune_def UpperLower_def)
  have e: "concat (map EncodeRune [0x48, 0xC9, 0x20, 0x53, 0x1C4, 0xFFFD])
       = [CHR ''H'', CHR 0xC3, CHR 0x89, CHR '' '', CHR ''S'', CHR 0xC7, CHR 0x84,
           CHR 0xEF, CHR 0xBF, CHR 0xBD]"
    by code_simp
  note th = Uppercase_nonempty[OF ne, of Background]
  have me: "concat (map (\<lambda>c. EncodeRune (unicode_ToUpper hostTable c)) (runes s))
      = concat (map EncodeRune (map (unicode_ToUpper hostTable) (runes s)))"
    by (simp only: map_map comp_def)
  from th have "fst (stringService_Uppercase hostTable Background s)
      = concat (map (\<lambda>c. EncodeRune (unicode_ToUpper hostTable c)) (runes s))"
    by blast
  then have f: "fst (stringService_Uppercase hostTable Background s)
      = [CHR ''H'', CHR 0xC3, CHR 0x89, CHR '' '', CHR ''S'', CHR 0xC7, CHR 0x84,
           CHR 0xEF, CHR 0xBF, CHR 0xBD]"
    unfolding me unfolding r m e .
  from th have sn: "snd (stringService_Uppercase hostTable Background s) = None"
    by simp
  have one: "stringService_Uppercase hostTable Background s
      = ([CHR ''H'', CHR 0xC3, CHR 0x89, CHR '' '', CHR ''S'', CHR 0xC7, CHR 0x84,
           CHR 0xEF, CHR 0xBF, CHR 0xBD], None)"
    using f sn by (simp only: prod_eq_iff fst_conv snd_conv)
  have ne2: "''hello, World'' \<noteq> []" by simp
  have a: "isASCII ''hello, World''" by code_simp
  have ub: "map upperByte ''hello, World'' = ''HELLO, WORLD''" by code_simp
  note th2 = Uppercase_nonempty[OF ne2, of Background]
  from th2 a have "fst (stringService_Uppercase hostTable Background ''hello, World'')
      = map upperByte ''hello, World''"
    by blast
  then have f2: "fst (stringService_Uppercase hostTable Background ''hello, World'') = ''HELLO, WORLD''"
    unfolding ub .
  from th2 have s2: "snd (stringService_Uppercase hostTable Background ''hello, World'') = None"
    by simp
  have two: "stringService_Uppercase hostTable Background ''hello, World'' = (''HELLO, WORLD'', None)"
    using f2 s2 by (simp only: prod_eq_iff fst_conv snd_conv)
  show ?thesis using ne r m one a two unfolding s_def by blast
qed

text \<open>
  C2. \<open>Uppercase(ctx, s)\<close> returns a non-nil error if and only if \<open>s\<close> is the empty
  string; the error is then \<open>ErrEmpty\<close>, whose message is "empty string", and the value
  returned with it is the empty string.
\<close>

theorem Uppercase_error_iff_empty:
  "(snd (stringService_Uppercase tbl ctx s) \<noteq> None \<longleftrightarrow> s = [])
   \<and> (s = [] \<longrightarrow> stringService_Uppercase tbl ctx s = ([], Some ErrEmpty))
   \<and> Error ErrEmpty = ''empty string''"
  by (simp add: stringService_Uppercase_def ErrEmpty_def)

theorem Uppercase_error_iff_empty_witness:
  "stringService_Uppercase latin1Table Background [] = ([], Some ErrEmpty)
   \<and> snd (stringService_Uppercase latin1Table Background ''a'') = None
   \<and> Error ErrEmpty = ''empty string''"
  using Uppercase_error_iff_empty[of latin1Table Background "[]"]
    Uppercase_error_iff_empty[of latin1Table Background "''a''"]
  by simp

text \<open>
  C3. For every string \<open>s\<close> and any context, \<open>Count(ctx, s)\<close> is the length of \<open>s\<close>, its
  number of bytes; it is \<open>0\<close> on the empty string. \<open>Count\<close> has no error result: as a
  method of the service it returns the number and leaves the world as it is.
\<close>

theorem Count_length:
  "stringService_Count ctx s = int (length s)
   \<and> stringService_Count ctx [] = 0
   \<and> Count (stringService tbl) ctx s w = (int (length s), w)"
  by (simp add: stringService_Count_def stringService_def)

theorem Count_length_witness:
  "stringService_Count Background ''hello'' = 5 \<and> stringService_Count (WithCancel Background) [] = 0"
  using Count_length[of Background "''hello''" latin1Table "()"]
    Count_length[of "WithCancel Background" "[]" latin1Table "()"]
  by simp

text \<open>
  C9. \<open>Uppercase\<close> is idempotent: for every non-empty string \<open>s\<close>, the result of
  \<open>Uppercase(s)\<close> is again non-empty, and \<open>Uppercase\<close> applied to it succeeds and
  returns it unchanged.
\<close>

theorem Uppercase_idempotent:
  assumes "s \<noteq> []"
  shows "fst (stringService_Uppercase hostTable ctx s) \<noteq> []
       \<and> stringService_Uppercase hostTable ctx' (fst (stringService_Uppercase hostTable ctx s))
           = stringService_Uppercase hostTable ctx s"
  using assms ToUpper_nonempty[OF hostTable_idempotent assms]
    ToUpper_idem[OF hostTable_idempotent, of s]
  by (simp add: stringService_Uppercase_def)

theorem Uppercase_idempotent_witness:
  "[CHR ''h'', CHR 0xC3, CHR 0xA9, CHR 0xC4, CHR 0xB1, CHR 0xC7, CHR 0x85] \<noteq> []
   \<and> fst (stringService_Uppercase hostTable Background
            [CHR ''h'', CHR 0xC3, CHR 0xA9, CHR 0xC4, CHR 0xB1, CHR 0xC7, CHR 0x85])
       = [CHR ''H'', CHR 0xC3, CHR 0x89, CHR ''I'', CHR 0xC7, CHR 0x84]
   \<and> stringService_Uppercase hostTable (WithCancel Background)
         [CHR ''H'', CHR 0xC3, CHR 0x89, CHR ''I'', CHR 0xC7, CHR 0x84]
       = ([CHR ''H'', CHR 0xC3, CHR 0x89, CHR ''I'', CHR 0xC7, CHR 0x84], None)"
proof -
  have ne: "[CHR ''h'', CHR 0xC3, CHR 0xA9, CHR 0xC4, CHR 0xB1, CHR 0xC7, CHR 0x85] \<noteq> []" by simp
  have v: "stringService_Uppercase hostTable Background
             [CHR ''h'', CHR 0xC3, CHR 0xA9, CHR 0xC4, CHR 0xB1, CHR 0xC7, CHR 0x85]
      = ([CHR ''H'', CHR 0xC3, CHR 0x89, CHR ''I'', CHR 0xC7, CHR 0x84], None)"
    by code_simp
  show ?thesis
    using Uppercase_idempotent[OF ne, of Background "WithCancel Background"]
    by (simp add: v)
qed

text \<open>
  C10. Both operations ignore the context: for every string \<open>s\<close> and any two contexts,
  \<open>Uppercase\<close> returns the same value and the same error, and \<open>Count\<close> the same number.
\<close>

theorem context_ignored:
  "stringService_Uppercase tbl ctx1 s = stringService_Uppercase tbl ctx2 s
   \<and> stringService_Count ctx1 s = stringService_Count ctx2 s"
  by (simp add: stringService_Uppercase_def stringService_Count_def)

theorem context_ignored_witness:
  "stringService_Uppercase latin1Table Background ''go''
     = stringService_Uppercase latin1Table (WithValue Background ''user'' ''x'') ''go''
   \<and> stringService_Count Background ''go''
     = stringService_Count (WithValue Background ''user'' ''x'') ''go''"
  by (rule context_ignored)

section \<open>Endpoints\<close>

text \<open>
  C4. For every \<open>uppercaseRequest\<close>, the endpoint made by \<open>makeUppercaseEndpoint\<close>
  returns a nil error. Its response carries the value the service returned in \<open>V\<close>
  and, in \<open>Err\<close>, the message of the error of the service, or the empty string when
  the service returned no error. Over \<open>stringService\<close> a failing call gives
  \<open>V = ""\<close> and \<open>Err = "empty string"\<close>. The endpoint made by \<open>makeCountEndpoint\<close>
  returns a nil error for every \<open>countRequest\<close>.
\<close>

theorem endpoints_nil_error:
  "fst (makeUppercaseEndpoint svc ctx (AnyUppercaseRequest req) w)
     = Inr (AnyUppercaseResponse
              (uppercaseResponse
                 (fst (fst (Uppercase svc ctx (uppercaseRequest.S req) w)))
                 (case snd (fst (Uppercase svc ctx (uppercaseRequest.S req) w)) of
                    None \<Rightarrow> []
                  | Some x \<Rightarrow> Error x)),
            None)
   \<and> fst (makeUppercaseEndpoint (stringService tbl) ctx (AnyUppercaseRequest req) w')
     = Inr (AnyUppercaseResponse
              (if uppercaseRequest.S req = [] then uppercaseResponse [] ''empty string''
               else uppercaseResponse (strings_ToUpper tbl (uppercaseRequest.S req)) []),
            None)
   \<and> fst (makeCountEndpoint svc ctx (AnyCountRequest creq) w)
     = Inr (AnyCountResponse (countResponse (fst (Count svc ctx (countRequest.S creq) w))), None)"
  by (simp add: makeUppercaseEndpoint_def makeCountEndpoint_def stringService_def
      stringService_Uppercase_def ErrEmpty_def split_beta Let_def split: option.splits)

theorem endpoints_nil_error_witness:
  "fst (makeUppercaseEndpoint (stringService latin1Table) Background
          (AnyUppercaseRequest (uppercaseRequest [])) ())
     = Inr (AnyUppercaseResponse (uppercaseResponse [] ''empty string''), None)
   \<and> fst (makeCountEndpoint (stringService latin1Table) Background
          (AnyCountRequest (countRequest ''hello'')) ())
     = Inr (AnyCountResponse (countResponse 5), None)"
  using endpoints_nil_error[of "stringService latin1Table" Background "uppercaseRequest []" "()"
      latin1Table "()" "countRequest ''hello''"]
  by (simp add: stringService_def stringService_Count_def stringService_Uppercase_def ErrEmpty_def)

section \<open>The transport\<close>

lemma Marshal_uppercaseResponse:
  "Marshal (AnyUppercaseResponse r) =
     (if Err r = [] then ''{'' @ quote ''v'' @ '':'' @ quote (uppercaseResponse.V r) @ ''}''
      else ''{'' @ quote ''v'' @ '':'' @ quote (uppercaseResponse.V r) @ '','' @ quote ''err'' @ '':''
           @ quote (Err r) @ ''}'')"
  by (simp add: Marshal_def json_of_any_def)

lemma quote_v: \<open>quote ''v'' = ''"v"''\<close>
  by code_simp

lemma quote_err: \<open>quote ''err'' = ''"err"''\<close>
  by code_simp

lemma quote_empty: \<open>quote [] = ''""''\<close>
  by code_simp

lemma quote_empty_string: \<open>quote ''empty string'' = ''"empty string"''\<close>
  by code_simp

text \<open>
  C5. The JSON encoding of an \<open>uppercaseResponse\<close> has no \<open>err\<close> key when \<open>Err\<close> is
  empty and has the key, with the string \<open>Err\<close>, when it is not; a failing call of the
  service gives a response whose encoding has \<open>err\<close> set to the non-empty string
  "empty string". Served over \<open>stringService\<close>, the body \<open>{"s":"hello"}\<close> is answered
  with \<open>{"v":"HELLO"}\<close>, the body \<open>{"s":""}\<close> with \<open>{"v":"","err":"empty string"}\<close>,
  and the body \<open>{"s":"hello"}\<close> sent to the count operation with \<open>{"V":5}\<close>. The
  encoder ends each of these JSON texts with a newline; read as JSON, each body is the
  object of the claim: a single member \<open>v\<close>, the members \<open>v\<close> and \<open>err\<close>, a single
  member \<open>V\<close>.
\<close>

theorem response_encoding:
  \<open>(Err r = [] \<longrightarrow>
      json_of_any (AnyUppercaseResponse r) = JObject [(''v'', JString (uppercaseResponse.V r))]
      \<and> Marshal (AnyUppercaseResponse r) = ''{"v":'' @ quote (uppercaseResponse.V r) @ ''}'')
   \<and> (Err r \<noteq> [] \<longrightarrow>
      json_of_any (AnyUppercaseResponse r)
        = JObject [(''v'', JString (uppercaseResponse.V r)), (''err'', JString (Err r))]
      \<and> Marshal (AnyUppercaseResponse r)
        = ''{"v":'' @ quote (uppercaseResponse.V r) @ '',"err":'' @ quote (Err r) @ ''}'')
   \<and> (snd (stringService_Uppercase tbl ctx s) \<noteq> None \<longrightarrow>
      (\<exists>resp. fst (makeUppercaseEndpoint (stringService tbl) ctx
                      (AnyUppercaseRequest (uppercaseRequest s)) w)
                 = Inr (AnyUppercaseResponse resp, None)
         \<and> Err resp \<noteq> []
         \<and> Marshal (AnyUppercaseResponse resp) = ''{"v":"","err":"empty string"}''))
   \<and> fst (ServeHTTP (uppercaseHandler (stringService tbl)) \<lparr>Ctx = ctx, Body = ''{"s":"hello"}''\<rparr> w)
       = Inr (OK (''{"v":"HELLO"}'' @ [CHR 0x0A]))
   \<and> fst (ServeHTTP (uppercaseHandler (stringService tbl)) \<lparr>Ctx = ctx, Body = ''{"s":""}''\<rparr> w)
       = Inr (OK (''{"v":"","err":"empty string"}'' @ [CHR 0x0A]))
   \<and> fst (ServeHTTP (countHandler (stringService tbl)) \<lparr>Ctx = ctx, Body = ''{"s":"hello"}''\<rparr> w)
       = Inr (OK (''{"V":5}'' @ [CHR 0x0A]))
   \<and> json_Decode_value (''{"v":"HELLO"}'' @ [CHR 0x0A]) = Inr (JObject [(''v'', JString ''HELLO'')])
   \<and> json_Decode_value (''{"v":"","err":"empty string"}'' @ [CHR 0x0A])
       = Inr (JObject [(''v'', JString []), (''err'', JString ''empty string'')])
   \<and> json_Decode_value (''{"V":5}'' @ [CHR 0x0A]) = Inr (JObject [(''V'', JNumber ''5'')])\<close>
proof -
  have a: \<open>Err r = [] \<longrightarrow>
      json_of_any (AnyUppercaseResponse r) = JObject [(''v'', JString (uppercaseResponse.V r))]
      \<and> Marshal (AnyUppercaseResponse r) = ''{"v":'' @ quote (uppercaseResponse.V r) @ ''}''\<close>
    by (simp add: Marshal_uppercaseResponse quote_v) (simp add: json_of_any_def)
  have b: \<open>Err r \<noteq> [] \<longrightarrow>
      json_of_any (AnyUppercaseResponse r)
        = JObject [(''v'', JString (uppercaseResponse.V r)), (''err'', JString (Err r))]
      \<and> Marshal (AnyUppercaseResponse r)
        = ''{"v":'' @ quote (uppercaseResponse.V r) @ '',"err":'' @ quote (Err r) @ ''}''\<close>
    by (simp add: Marshal_uppercaseResponse quote_v quote_err) (simp add: json_of_any_def)
  have m: \<open>Marshal (AnyUppercaseResponse (uppercaseResponse [] ''empty string''))
      = ''{"v":"","err":"empty string"}''\<close>
    by (simp add: Marshal_uppercaseResponse quote_v quote_err quote_empty quote_empty_string)
  have c: \<open>snd (stringService_Uppercase tbl ctx s) \<noteq> None \<longrightarrow>
      (\<exists>resp. fst (makeUppercaseEndpoint (stringService tbl) ctx
                      (AnyUppercaseRequest (uppercaseRequest s)) w)
                 = Inr (AnyUppercaseResponse resp, None)
         \<and> Err resp \<noteq> []
         \<and> Marshal (AnyUppercaseResponse resp) = ''{"v":"","err":"empty string"}'')\<close>
  proof
    assume "snd (stringService_Uppercase tbl ctx s) \<noteq> None"
    then have s: "s = []" by (simp add: stringService_Uppercase_def split: if_splits)
    have "fst (makeUppercaseEndpoint (stringService tbl) ctx
                 (AnyUppercaseRequest (uppercaseRequest s)) w)
            = Inr (AnyUppercaseResponse (uppercaseResponse [] ''empty string''), None)"
      unfolding s
      by (simp add: makeUppercaseEndpoint_def stringService_def stringService_Uppercase_def ErrEmpty_def)
    then show \<open>\<exists>resp. fst (makeUppercaseEndpoint (stringService tbl) ctx
                      (AnyUppercaseRequest (uppercaseRequest s)) w)
                 = Inr (AnyUppercaseResponse resp, None)
         \<and> Err resp \<noteq> []
         \<and> Marshal (AnyUppercaseResponse resp) = ''{"v":"","err":"empty string"}''\<close>
      using m by (intro exI[of _ "uppercaseResponse [] ''empty string''"]) simp
  qed
  have d1: \<open>fst (ServeHTTP (uppercaseHandler (stringService tbl)) \<lparr>Ctx = ctx, Body = ''{"s":"hello"}''\<rparr> w)
       = Inr (OK (''{"v":"HELLO"}'' @ [CHR 0x0A]))\<close>
    by code_simp
  have d2: \<open>fst (ServeHTTP (uppercaseHandler (stringService tbl)) \<lparr>Ctx = ctx, Body = ''{"s":""}''\<rparr> w)
       = Inr (OK (''{"v":"","err":"empty string"}'' @ [CHR 0x0A]))\<close>
    by code_simp
  have d3: \<open>fst (ServeHTTP (countHandler (stringService tbl)) \<lparr>Ctx = ctx, Body = ''{"s":"hello"}''\<rparr> w)
       = Inr (OK (''{"V":5}'' @ [CHR 0x0A]))\<close>
    by code_simp
  have j1: \<open>json_Decode_value (''{"v":"HELLO"}'' @ [CHR 0x0A]) = Inr (JObject [(''v'', JString ''HELLO'')])\<close>
    by code_simp
  have j2: \<open>json_Decode_value (''{"v":"","err":"empty string"}'' @ [CHR 0x0A])
       = Inr (JObject [(''v'', JString []), (''err'', JString ''empty string'')])\<close>
    by code_simp
  have j3: \<open>json_Decode_value (''{"V":5}'' @ [CHR 0x0A]) = Inr (JObject [(''V'', JNumber ''5'')])\<close>
    by code_simp
  show ?thesis using a b c d1 d2 d3 j1 j2 j3 by blast
qed

theorem response_encoding_witness:
  \<open>Err (uppercaseResponse ''HELLO'' []) = []
   \<and> Marshal (AnyUppercaseResponse (uppercaseResponse ''HELLO'' [])) = ''{"v":"HELLO"}''
   \<and> Err (uppercaseResponse [] ''empty string'') \<noteq> []
   \<and> Marshal (AnyUppercaseResponse (uppercaseResponse [] ''empty string''))
       = ''{"v":"","err":"empty string"}''
   \<and> snd (stringService_Uppercase latin1Table Background []) \<noteq> None
   \<and> fst (ServeHTTP (uppercaseHandler (stringService latin1Table))
            \<lparr>Ctx = Background, Body = ''{"s":"hello"}''\<rparr> ())
       = Inr (OK (''{"v":"HELLO"}'' @ [CHR 0x0A]))\<close>
proof -
  have q: \<open>quote ''HELLO'' = ''"HELLO"''\<close> by code_simp
  have f: "snd (stringService_Uppercase latin1Table Background []) \<noteq> None"
    by (simp add: stringService_Uppercase_def)
  show ?thesis
    using response_encoding[of "uppercaseResponse ''HELLO'' []" latin1Table Background "[]" "()"]
      response_encoding[of "uppercaseResponse [] ''empty string''" latin1Table Background "[]" "()"]
      f
    by (simp add: q quote_empty quote_empty_string)
qed

lemma ServeHTTP_decode_error:
  "dec ctx' r = (request, Some x) \<Longrightarrow> Ctx r = ctx' \<Longrightarrow>
     ServeHTTP (NewServer ep dec en) r w = (Inr (Failed x), w)"
  by (simp add: ServeHTTP_def NewServer_def)

text \<open>
  C7. When the body of a request cannot be deserialized into the request struct, that
  is when \<open>Decode\<close> returns an error,
  \<open>decodeUppercaseRequest\<close> (and likewise \<open>decodCountRequest\<close>) returns the error of the
  JSON decoder and a nil value, and the server does not call its endpoint: whatever
  endpoint and encoder it was made with, it answers with the failure and leaves the
  world as it was. When the body is deserialized, the decoder returns the decoded
  request and a nil error.
\<close>

theorem decode_failure:
  "(snd (Decode_S ''uppercaseRequest'' (Body r) []) = Some x \<longrightarrow>
      decodeUppercaseRequest ctx r = (nil, Some x)
      \<and> ServeHTTP (NewServer ep decodeUppercaseRequest en) r w = (Inr (Failed x), w))
   \<and> (snd (Decode_S ''uppercaseRequest'' (Body r) []) = None \<longrightarrow>
      decodeUppercaseRequest ctx r
        = (AnyUppercaseRequest (uppercaseRequest (fst (Decode_S ''uppercaseRequest'' (Body r) []))),
           None))
   \<and> (snd (Decode_S ''countRequest'' (Body r) []) = Some y \<longrightarrow>
      decodCountRequest ctx r = (nil, Some y)
      \<and> ServeHTTP (NewServer ep decodCountRequest en) r w = (Inr (Failed y), w))
   \<and> (snd (Decode_S ''countRequest'' (Body r) []) = None \<longrightarrow>
      decodCountRequest ctx r
        = (AnyCountRequest (countRequest (fst (Decode_S ''countRequest'' (Body r) []))), None))"
proof -
  have u: "decodeUppercaseRequest c r =
      (case snd (Decode_S ''uppercaseRequest'' (Body r) []) of
         Some z \<Rightarrow> (nil, Some z)
       | None \<Rightarrow> (AnyUppercaseRequest
           (uppercaseRequest (fst (Decode_S ''uppercaseRequest'' (Body r) []))), None))" for c
    by (simp add: decodeUppercaseRequest_def split_beta split: option.splits)
  have c: "decodCountRequest c r =
      (case snd (Decode_S ''countRequest'' (Body r) []) of
         Some z \<Rightarrow> (nil, Some z)
       | None \<Rightarrow> (AnyCountRequest
           (countRequest (fst (Decode_S ''countRequest'' (Body r) []))), None))" for c
    by (simp add: decodCountRequest_def split_beta split: option.splits)
  show ?thesis
    by (auto simp: u c intro!: ServeHTTP_decode_error)
qed

theorem decode_failure_witness:
  \<open>decodeUppercaseRequest Background \<lparr>Ctx = Background, Body = ''{"s":"hel''\<rparr>
     = (nil, Some io_ErrUnexpectedEOF)
   \<and> ServeHTTP (uppercaseHandler (stringService latin1Table))
        \<lparr>Ctx = Background, Body = ''{"s":"hel''\<rparr> ()
     = (Inr (Failed io_ErrUnexpectedEOF), ())
   \<and> decodCountRequest Background \<lparr>Ctx = Background, Body = ''{"s":"hello"}''\<rparr>
     = (AnyCountRequest (countRequest ''hello''), None)
   \<and> decodeUppercaseRequest Background \<lparr>Ctx = Background, Body = ''nullx''\<rparr>
     = (AnyUppercaseRequest (uppercaseRequest []), None)\<close>
proof -
  define r3 where \<open>r3 = \<lparr>Ctx = Background, Body = ''nullx''\<rparr>\<close>
  have d3: \<open>Decode_S ''uppercaseRequest'' ''nullx'' [] = ([], None)\<close>
    by code_simp
  have h3: "snd (Decode_S ''uppercaseRequest'' (Body r3) []) = None"
    and f3: "fst (Decode_S ''uppercaseRequest'' (Body r3) []) = []"
    by (simp_all add: r3_def d3)
  note t3 = decode_failure[where r = r3 and x = io_EOF and y = io_EOF
      and ctx = Background and ep = "makeUppercaseEndpoint (stringService latin1Table)"
      and en = encodeResponse and w = "()"]
  from t3 h3 have "decodeUppercaseRequest Background r3
      = (AnyUppercaseRequest (uppercaseRequest (fst (Decode_S ''uppercaseRequest'' (Body r3) []))), None)"
    by blast
  then have d: "decodeUppercaseRequest Background r3 = (AnyUppercaseRequest (uppercaseRequest []), None)"
    unfolding f3 .
  define r1 where \<open>r1 = \<lparr>Ctx = Background, Body = ''{"s":"hel''\<rparr>\<close>
  define r2 where \<open>r2 = \<lparr>Ctx = Background, Body = ''{"s":"hello"}''\<rparr>\<close>
  have d1: \<open>Decode_S ''uppercaseRequest'' ''{"s":"hel'' [] = ([], Some io_ErrUnexpectedEOF)\<close>
    by code_simp
  have d2: \<open>Decode_S ''countRequest'' ''{"s":"hello"}'' [] = (''hello'', None)\<close>
    by code_simp
  have h1: "snd (Decode_S ''uppercaseRequest'' (Body r1) []) = Some io_ErrUnexpectedEOF"
    by (simp add: r1_def d1)
  have h2: "snd (Decode_S ''countRequest'' (Body r2) []) = None"
    and f2: "fst (Decode_S ''countRequest'' (Body r2) []) = ''hello''"
    by (simp_all add: r2_def d2)
  note t1 = decode_failure[where r = r1 and x = io_ErrUnexpectedEOF and y = io_EOF
      and ctx = Background and ep = "makeUppercaseEndpoint (stringService latin1Table)"
      and en = encodeResponse and w = "()"]
  note t2 = decode_failure[where r = r2 and x = io_EOF and y = io_EOF
      and ctx = Background and ep = "makeCountEndpoint (stringService latin1Table)"
      and en = encodeResponse and w = "()"]
  from t1 h1 have a: "decodeUppercaseRequest Background r1 = (nil, Some io_ErrUnexpectedEOF)"
    and b: "ServeHTTP (NewServer (makeUppercaseEndpoint (stringService latin1Table))
              decodeUppercaseRequest encodeResponse) r1 ()
            = (Inr (Failed io_ErrUnexpectedEOF), ())"
    by blast+
  from t2 h2 have "decodCountRequest Background r2
      = (AnyCountRequest (countRequest (fst (Decode_S ''countRequest'' (Body r2) []))), None)"
    by blast
  then have c: "decodCountRequest Background r2 = (AnyCountRequest (countRequest ''hello''), None)"
    unfolding f2 .
  show ?thesis
    using a b c d unfolding r1_def r2_def r3_def uppercaseHandler_def by blast
qed

text \<open>
  C8. The request that a decoder hands to its endpoint has the type the endpoint
  asserts: a request decoded by \<open>decodeUppercaseRequest\<close> is a \<open>uppercaseRequest\<close>, one
  decoded by \<open>decodCountRequest\<close> a \<open>countRequest\<close>, and on such a value the type
  assertion of the endpoint succeeds. So a handler never panics, whatever the request
  and the service.
\<close>

theorem cast_succeeds:
  "(decodeUppercaseRequest ctx r = (request, None) \<longrightarrow>
      (\<exists>req. request = AnyUppercaseRequest req)
      \<and> (\<exists>resp. fst (makeUppercaseEndpoint svc ctx' request w) = Inr resp))
   \<and> (decodCountRequest ctx r = (crequest, None) \<longrightarrow>
      (\<exists>req. crequest = AnyCountRequest req)
      \<and> (\<exists>resp. fst (makeCountEndpoint svc ctx' crequest w) = Inr resp))
   \<and> (\<forall>p. fst (ServeHTTP (uppercaseHandler svc) r w) \<noteq> Inl p)
   \<and> (\<forall>p. fst (ServeHTTP (countHandler svc) r w) \<noteq> Inl p)"
proof -
  have u: "decodeUppercaseRequest c r = (q, None) \<Longrightarrow> \<exists>req. q = AnyUppercaseRequest req" for c q
    by (auto simp: decodeUppercaseRequest_def split_beta split: option.splits)
  have c: "decodCountRequest c r = (q, None) \<Longrightarrow> \<exists>req. q = AnyCountRequest req" for c q
    by (auto simp: decodCountRequest_def split_beta split: option.splits)
  have eu: "\<exists>resp. fst (makeUppercaseEndpoint svc c (AnyUppercaseRequest req) v) = Inr resp" for c req v
    by (simp add: makeUppercaseEndpoint_def split_beta split: option.splits)
  have ec: "\<exists>resp. fst (makeCountEndpoint svc c (AnyCountRequest req) v) = Inr resp" for c req v
    by (simp add: makeCountEndpoint_def split_beta)
  have su: "fst (ServeHTTP (uppercaseHandler svc) r w) \<noteq> Inl p" for p
  proof (cases "decodeUppercaseRequest (Ctx r) r")
    case (Pair q err)
    show ?thesis
    proof (cases err)
      case None
      with Pair obtain req where q: "q = AnyUppercaseRequest req" using u by blast
      obtain resp where "fst (makeUppercaseEndpoint svc (Ctx r) (AnyUppercaseRequest req) w) = Inr resp"
        using eu by blast
      then show ?thesis using Pair None q
        by (cases "makeUppercaseEndpoint svc (Ctx r) (AnyUppercaseRequest req) w")
           (auto simp: ServeHTTP_def uppercaseHandler_def NewServer_def encodeResponse_def
              split: option.splits prod.splits sum.splits)
    next
      case (Some x)
      then show ?thesis using Pair
        by (simp add: ServeHTTP_def uppercaseHandler_def NewServer_def)
    qed
  qed
  have sc: "fst (ServeHTTP (countHandler svc) r w) \<noteq> Inl p" for p
  proof (cases "decodCountRequest (Ctx r) r")
    case (Pair q err)
    show ?thesis
    proof (cases err)
      case None
      with Pair obtain req where q: "q = AnyCountRequest req" using c by blast
      obtain resp where "fst (makeCountEndpoint svc (Ctx r) (AnyCountRequest req) w) = Inr resp"
        using ec by blast
      then show ?thesis using Pair None q
        by (cases "makeCountEndpoint svc (Ctx r) (AnyCountRequest req) w")
           (auto simp: ServeHTTP_def countHandler_def NewServer_def encodeResponse_def
              split: option.splits prod.splits sum.splits)
    next
      case (Some x)
      then show ?thesis using Pair
        by (simp add: ServeHTTP_def countHandler_def NewServer_def)
    qed
  qed
  show ?thesis using u c eu ec su sc by blast
qed

theorem cast_succeeds_witness:
  \<open>decodeUppercaseRequest Background \<lparr>Ctx = Background, Body = ''{"s":"hello"}''\<rparr>
     = (AnyUppercaseRequest (uppercaseRequest ''hello''), None)
   \<and> (\<exists>resp. fst (makeUppercaseEndpoint (stringService latin1Table) Background
                    (AnyUppercaseRequest (uppercaseRequest ''hello'')) ()) = Inr resp)\<close>
proof -
  have d: \<open>decodeUppercaseRequest Background \<lparr>Ctx = Background, Body = ''{"s":"hello"}''\<rparr>
     = (AnyUppercaseRequest (uppercaseRequest ''hello''), None)\<close>
    by code_simp
  show ?thesis
    using cast_succeeds[of Background "\<lparr>Ctx = Background, Body = ''{\"s\":\"hello\"}''\<rparr>"
        "AnyUppercaseRequest (uppercaseRequest ''hello'')" "stringService latin1Table" Background "()"]
      d
    by blast
qed

section \<open>The middlewares\<close>

text \<open>
  C6. For every input string and any context, the service that \<open>main\<close> builds, the base
  \<open>stringService\<close> wrapped in the logging and then in the instrumenting middleware,
  returns from \<open>Uppercase\<close> the value and the error, and from \<open>Count\<close> the number, that
  the base service returns. This holds whatever the logger and the metrics do, and in
  every state of the world.
\<close>

theorem middlewares_transparent:
  "fst (Uppercase (instrumentingMiddleware rc rl cr (loggingMiddleware lg (stringService tbl))) ctx s w)
     = fst (Uppercase (stringService tbl) ctx s w)
   \<and> fst (Count (instrumentingMiddleware rc rl cr (loggingMiddleware lg (stringService tbl))) ctx s w)
     = fst (Count (stringService tbl) ctx s w)
   \<and> fst (Uppercase (main_svc tbl) ctx s w) = stringService_Uppercase tbl ctx s
   \<and> fst (Count (main_svc tbl) ctx s w) = stringService_Count ctx s"
  by (simp add: main_svc_def instrumentingMiddleware_def loggingMiddleware_def stringService_def
      split_beta Let_def)

theorem middlewares_transparent_witness:
  "fst (Uppercase (main_svc latin1Table) Background ''hello'' world0) = (''HELLO'', None)
   \<and> fst (Uppercase (main_svc latin1Table) Background [] (world0\<lparr>log_up := False\<rparr>))
       = ([], Some ErrEmpty)
   \<and> fst (Count (main_svc latin1Table) Background ''hello'' world0) = 5"
proof -
  have u: "stringService_Uppercase latin1Table Background ''hello'' = (''HELLO'', None)"
    by code_simp
  have v: "stringService_Uppercase latin1Table Background [] = ([], Some ErrEmpty)"
    by (simp add: stringService_Uppercase_def)
  have c: "stringService_Count Background ''hello'' = 5"
    by (simp add: stringService_Count_def)
  show ?thesis
    using middlewares_transparent[of requestCount requestLatency countResult logger latin1Table
        Background "''hello''" world0]
      middlewares_transparent[of requestCount requestLatency countResult logger latin1Table
        Background "[]" "world0\<lparr>log_up := False\<rparr>"]
    by (simp only: u v c simp_thms)
qed


end
